theory Spec2Isabelle
  imports Main
begin

section \<open>Text helpers (api.ts)\<close>

subsection \<open>splitMessageByBytes\<close>

text \<open>
  A JavaScript string is iterated by \<open>for (const char of text)\<close> one code point at a
  time (a lone surrogate is yielded alone).  A string is modelled as the list of the
  characters the iterator yields, each given by its code point.
  \<open>Buffer.byteLength(s, "utf8")\<close> is the sum of the UTF-8 lengths of these characters;
  a lone surrogate is encoded as U+FFFD, three bytes, as every other character below
  U+10000 and above U+07FF.
\<close>

type_synonym codepoint = nat
type_synonym jsstring = "codepoint list"

definition utf8_len :: "codepoint \<Rightarrow> nat" where
  "utf8_len c = (if c < 0x80 then 1 else if c < 0x800 then 2 else if c < 0x10000 then 3 else 4)"

definition byteLength :: "jsstring \<Rightarrow> nat" where
  "byteLength s = sum_list (map utf8_len s)"

text \<open>
  The loop of \<open>splitMessageByBytes\<close>: \<open>chunks\<close> and \<open>current\<close> are the two local
  variables, the list argument is what the iterator has still to yield.  The last
  equation is the code after the loop.  \<open>maxBytes\<close> is a whole number of bytes.
\<close>

fun splitLoop :: "int \<Rightarrow> jsstring \<Rightarrow> jsstring list \<Rightarrow> jsstring \<Rightarrow> jsstring list" where
  "splitLoop maxBytes [] chunks current =
     (if current \<noteq> [] then chunks @ [current] else chunks)"
| "splitLoop maxBytes (char # rest) chunks current =
     (let next = current @ [char] in
      if int (byteLength next) > maxBytes
      then splitLoop maxBytes rest (if current \<noteq> [] then chunks @ [current] else chunks) [char]
      else splitLoop maxBytes rest chunks next)"

definition splitMessageByBytes :: "jsstring \<Rightarrow> int \<Rightarrow> jsstring list" where
  "splitMessageByBytes text maxBytes = splitLoop maxBytes text [] []"

section \<open>Data model (types.ts)\<close>

text \<open>
  Identifiers, cursors, tokens and keys are only compared, tested for emptiness and
  concatenated: they are \<open>string\<close>s.  Text that the code trims or scans (the welcome
  text, request bodies, decrypted plaintext) is a \<open>jsstring\<close>.  An optional property
  is an \<open>option\<close>; \<open>truthy\<close> is the JavaScript test \<open>if (x)\<close> on an optional string:
  false for \<open>undefined\<close> and for the empty string.
\<close>

definition truthy :: "'a list option \<Rightarrow> bool" where
  "truthy x = (case x of None \<Rightarrow> False | Some s \<Rightarrow> s \<noteq> [])"

definition js :: "string \<Rightarrow> jsstring" where
  "js s = map of_char s"

record ResolvedWecomKfAccount =
  accountId :: string
  token :: "string option"
  encodingAESKey :: "string option"
  corpId :: "string option"
  corpSecret :: "string option"
  openKfId :: "string option"
  welcomeText :: "jsstring option"  \<comment> \<open>\<open>config.welcomeText\<close>\<close>

record WebhookTarget =
  account :: ResolvedWecomKfAccount
  path :: string
  hasStatusSink :: bool  \<comment> \<open>whether the optional \<open>statusSink\<close> callback is present\<close>

record AccessTokenCacheEntry =
  entry_token :: string  \<comment> \<open>field \<open>token\<close>\<close>
  expiresAt :: int

text \<open>
  The fields of a sync item that the webhook code reads.  The payload that belongs to
  the message type (text, image, ...) is never inspected there and is left out.
\<close>

record KfEvent =
  event_type :: string
  welcome_code :: "string option"
  fail_msgid :: "string option"
  fail_type :: "int option"

record SyncMsgItem =
  msgid :: string
  msgtype :: string
  origin :: int
  external_userid :: string
  event :: "KfEvent option"

text \<open>
  The JSON body of a \<open>sync_msg\<close> reply.  \<open>errcode\<close> is optional because the code tests
  it against \<open>undefined\<close>.  A missing \<open>next_cursor\<close> is the empty string, a missing
  \<open>msg_list\<close> the empty list and a missing \<open>has_more\<close> is 0: the code treats each pair
  alike (\<open>if (resp.next_cursor)\<close>, \<open>!resp.msg_list || resp.msg_list.length === 0\<close>,
  \<open>resp.has_more === 1\<close>).
\<close>

record SyncMsgResponse =
  errcode :: "int option"
  errmsg :: "string option"
  next_cursor :: string
  has_more :: int
  msg_list :: "SyncMsgItem list"

record gettoken_reply =
  gt_errcode :: "int option"
  gt_errmsg :: "string option"
  access_token :: "string option"

record sync_params =
  p_cursor :: "string option"
  p_token :: "string option"
  p_open_kfid :: "string option"
  p_limit :: "int option"

section \<open>Errors, log lines and calls\<close>

text \<open>
  A thrown value is an \<open>err\<close>; a call that may throw returns \<open>err + 'a\<close>, \<open>Inl\<close> for the
  throw.  \<open>Thrown\<close> stands for every error raised outside this code (a failed network
  request, a body that is not JSON, a decryption failure), by its text.
\<close>

datatype err =
    NotConfigured  \<comment> \<open>corpId or corpSecret not configured\<close>
  | GetTokenFailed "string option" int  \<comment> \<open>gettoken failed: errmsg (errcode=...)\<close>
  | EmptyAccessToken  \<comment> \<open>gettoken returned empty access_token\<close>
  | SyncMsgError "string option" int  \<comment> \<open>sync_msg failed: errmsg (errcode=...)\<close>
  | Thrown string

type_synonym 'a result = "err + 'a"

datatype loglevel = DEBUG | INFO | WARN | ERROR

text \<open>A log line is given by its call site and the values it interpolates.\<close>

datatype logline =
    MissingCorpCredentials  \<comment> \<open>account missing corpId/corpSecret, skip pull\<close>
  | NoOpenKfId  \<comment> \<open>no open_kfid available ..., skip pull\<close>
  | ColdStartFor string  \<comment> \<open>cold start for KEY - draining history to advance cursor\<close>
  | ColdStartSkipped nat  \<comment> \<open>cold start drain: skipped N historical messages\<close>
  | DispatchFailed string err  \<comment> \<open>dispatch failed for msgid=...\<close>
  | RuntimeUnavailable  \<comment> \<open>runtime not available, cannot dispatch message\<close>
  | SyncMsgFailed err  \<comment> \<open>sync_msg failed: ...\<close>
  | WelcomeSent string  \<comment> \<open>welcome sent to USER via welcome_code\<close>
  | WelcomeFailed err  \<comment> \<open>failed to send welcome: ...\<close>
  | MsgSendFail "string option" "int option"  \<comment> \<open>msg_send_fail: msgid=..., fail_type=...\<close>
  | StatusChange string string  \<comment> \<open>event: TYPE for USER\<close>
  | UnhandledEvent string  \<comment> \<open>unhandled KF event: TYPE\<close>
  | EchostrDecryptFailed err  \<comment> \<open>echostr decrypt failed: ...\<close>
  | CallbackDecrypted  \<comment> \<open>callback decrypted (first 500 chars): ...\<close>
  | CallbackXmlFields  \<comment> \<open>callback parsed XML fields: ...\<close>
  | CallbackJsonKeys  \<comment> \<open>callback parsed JSON keys: ...\<close>
  | CallbackNotXmlNorJson  \<comment> \<open>callback plaintext is neither XML nor JSON\<close>
  | CallbackReceived "string option" bool  \<comment> \<open>callback received: openKfId=..., hasToken=...\<close>
  | CallbackDecryptFailed err  \<comment> \<open>callback decrypt failed: ...\<close>

text \<open>
  What the code does to the outside is recorded, in order, in a trace: log lines, the
  calls of \<open>syncMessages\<close>, of the event router \<open>handleKfEvent\<close>, of the dispatch
  collaborator \<open>dispatchKfMessage\<close> and of \<open>sendKfWelcomeMessage\<close>, the request to the
  credential endpoint, the timer set by \<open>scheduleSaveCursors\<close> and the calls of
  \<open>statusSink\<close>.
\<close>

datatype effect =
    Log loglevel logline
  | SyncMessagesCall sync_params
  | HandleKfEventCall SyncMsgItem
  | DispatchKfMessageCall SyncMsgItem
  | SendKfWelcomeMessageCall string string jsstring  \<comment> \<open>welcome code, msgtype, text content\<close>
  | GetTokenRequest string string  \<comment> \<open>corpid, corpsecret\<close>
  | SetSaveTimer
  | StatusSinkOutbound int  \<comment> \<open>lastOutboundAt\<close>
  | StatusSinkInbound int  \<comment> \<open>lastInboundAt\<close>

section \<open>Process state and environment\<close>

text \<open>
  The module-level variables of api.ts and of the webhook module, the number of
  \<open>Date.now()\<close> readings taken so far and the trace.  One handler or one drain is
  modelled running alone: the interleaving of concurrent drains is outside the model.
\<close>

record world =
  webhookTargets :: "string \<rightharpoonup> WebhookTarget list"
  cursorStore :: "string \<rightharpoonup> string"
  cursorsLoaded :: bool
  saveTimer :: bool  \<comment> \<open>\<open>saveTimer\<close> is not null\<close>
  processedMsgIds :: "string \<rightharpoonup> int"
  accessTokenCache :: "string \<rightharpoonup> AccessTokenCacheEntry"
  ticks :: nat
  trace :: "effect list"

text \<open>
  The value \<open>JSON.parse\<close> returns, as far as the handler looks at it: \<open>null\<close>, on which
  every property access and \<open>Object.keys\<close> throw, or any other value, given by its
  properties as \<open>String(...)\<close> renders them (\<open>None\<close> for a property that is absent or
  null; a number, a string or a boolean has none of the properties asked for).
\<close>

datatype json = JsonNull | JsonValue "string \<rightharpoonup> string"

text \<open>
  What the code obtains from outside.  \<open>clock k\<close> is the value of the \<open>k\<close>-th
  \<open>Date.now()\<close>.  \<open>cursorFile\<close> is the parsed cursor file (\<open>None\<close> when reading or parsing
  throws; a value that is not a string is \<open>None\<close>).  \<open>core\<close> tells whether
  \<open>tryGetWecomKfRuntime()\<close> returns a runtime.  The collaborators \<open>dispatchKfMessage\<close>
  and \<open>sendKfWelcomeMessage\<close> are taken at their call: the environment says whether the
  call throws.  The functions of crypto.ts, \<open>verifyWecomSignature\<close> and
  \<open>decryptWecomEncrypted\<close>, are parameters, and so are the regular expressions of
  \<open>parseXmlBody\<close> and \<open>JSON.parse\<close> (\<open>None\<close> when it throws).
\<close>

record environment =
  clock :: "nat \<Rightarrow> int"
  cursorFile :: "(string \<times> string option) list option"
  core :: bool
  dispatchKfMessage :: "SyncMsgItem \<Rightarrow> err option"
  sendKfWelcomeMessage :: "string \<Rightarrow> jsstring \<Rightarrow> err option"
  verifyWecomSignature :: "string \<Rightarrow> string \<Rightarrow> string \<Rightarrow> string \<Rightarrow> string \<Rightarrow> bool"
    \<comment> \<open>token, timestamp, nonce, encrypt, signature\<close>
  decryptWecomEncrypted :: "string \<Rightarrow> string option \<Rightarrow> string \<Rightarrow> jsstring result"
    \<comment> \<open>encodingAESKey, receiveId, encrypt\<close>
  parseXmlBody :: "jsstring \<Rightarrow> (string \<rightharpoonup> string)"
  jsonParse :: "jsstring \<Rightarrow> json option"

definition emit :: "effect \<Rightarrow> world \<Rightarrow> world" where
  "emit e w = w\<lparr>trace := trace w @ [e]\<rparr>"

definition dateNow :: "environment \<Rightarrow> world \<Rightarrow> int" where
  "dateNow env w = clock env (ticks w)"

definition tick :: "world \<Rightarrow> world" where
  "tick w = w\<lparr>ticks := Suc (ticks w)\<rparr>"

section \<open>Access token (api.ts)\<close>

definition ACCESS_TOKEN_TTL_MS :: int where
  "ACCESS_TOKEN_TTL_MS = 7200 * 1000 - 5 * 60 * 1000"

text \<open>
  The part of \<open>getAccessToken\<close> after a cache miss: the request to the credential
  endpoint, whose outcome \<open>http\<close> is the parsed reply or a throw of \<open>fetch\<close> or \<open>json()\<close>.
\<close>

definition requestToken ::
  "environment \<Rightarrow> string \<Rightarrow> string \<Rightarrow> gettoken_reply result \<Rightarrow> world \<Rightarrow> string result \<times> world" where
  "requestToken env cid secret http w =
     (let key = cid @ '':kf'';
          w1 = emit (GetTokenRequest cid secret) w in
      case http of
        Inl e \<Rightarrow> (Inl e, w1)
      | Inr data \<Rightarrow>
          (case (case gt_errcode data of
                   None \<Rightarrow> None
                 | Some c \<Rightarrow> if c \<noteq> 0 then Some (GetTokenFailed (gt_errmsg data) c) else None) of
             Some e \<Rightarrow> (Inl e, w1)
           | None \<Rightarrow>
               (case access_token data of
                  None \<Rightarrow> (Inl EmptyAccessToken, w1)
                | Some t \<Rightarrow>
                    if t = [] then (Inl EmptyAccessToken, w1)
                    else (Inr t, (tick w1)\<lparr>accessTokenCache := (accessTokenCache w1)
                            (key \<mapsto> \<lparr>entry_token = t, expiresAt = dateNow env w1 + ACCESS_TOKEN_TTL_MS\<rparr>)\<rparr>))))"

definition getAccessToken ::
  "environment \<Rightarrow> ResolvedWecomKfAccount \<Rightarrow> gettoken_reply result \<Rightarrow> world \<Rightarrow> string result \<times> world" where
  "getAccessToken env acc http w =
     (case corpId acc of
        None \<Rightarrow> (Inl NotConfigured, w)
      | Some cid \<Rightarrow>
          (case corpSecret acc of
             None \<Rightarrow> (Inl NotConfigured, w)
           | Some secret \<Rightarrow>
               if cid = [] \<or> secret = [] then (Inl NotConfigured, w)
               else (case accessTokenCache w (cid @ '':kf'') of
                       None \<Rightarrow> requestToken env cid secret http w
                     | Some cached \<Rightarrow>
                         if dateNow env w < expiresAt cached then (Inr (entry_token cached), tick w)
                         else requestToken env cid secret http (tick w))))"

definition clearAccessTokenCache :: "string \<Rightarrow> world \<Rightarrow> world" where
  "clearAccessTokenCache cid w = w\<lparr>accessTokenCache := (accessTokenCache w)((cid @ '':kf'') := None)\<rparr>"

section \<open>Sync messages (api.ts)\<close>

text \<open>
  \<open>syncMessages\<close> first awaits \<open>getAccessToken(account)\<close>, then posts the request and
  reads the reply.  The outcome of the first step is the argument \<open>accessToken\<close>, the
  outcome of \<open>fetch\<close> and \<open>json()\<close> is \<open>http\<close>.  \<open>syncRequestBody\<close> is the JSON body built
  from the parameters: a falsy field is left out.
\<close>

definition syncRequestBody :: "sync_params \<Rightarrow> sync_params" where
  "syncRequestBody params =
     \<lparr>p_cursor = (if truthy (p_cursor params) then p_cursor params else None),
      p_token = (if truthy (p_token params) then p_token params else None),
      p_open_kfid = (if truthy (p_open_kfid params) then p_open_kfid params else None),
      p_limit = (case p_limit params of None \<Rightarrow> None | Some l \<Rightarrow> if l = 0 then None else Some l)\<rparr>"

definition syncMessages ::
  "string result \<Rightarrow> sync_params \<Rightarrow> SyncMsgResponse result \<Rightarrow> SyncMsgResponse result" where
  "syncMessages accessToken params http =
     (case accessToken of
        Inl e \<Rightarrow> Inl e
      | Inr tok \<Rightarrow>
          (case http of
             Inl e \<Rightarrow> Inl e
           | Inr data \<Rightarrow>
               (case errcode data of
                  None \<Rightarrow> Inr data
                | Some c \<Rightarrow> if c \<noteq> 0 then Inl (SyncMsgError (errmsg data) c) else Inr data)))"

section \<open>Cursor store and message dedup (webhook module)\<close>

text \<open>
  \<open>loadCursors\<close> reads the cursor file once; \<open>scheduleSaveCursors\<close> sets the one-second
  timer unless one is pending.  The timer's callback, which writes the file, runs
  later and is not part of a drain.
\<close>

definition loadCursors :: "environment \<Rightarrow> world \<Rightarrow> world" where
  "loadCursors env w =
     (if cursorsLoaded w then w
      else (case cursorFile env of
              None \<Rightarrow> w\<lparr>cursorsLoaded := True\<rparr>
            | Some entries \<Rightarrow>
                (fold (\<lambda>(k, v) w'. case v of
                                      None \<Rightarrow> w'
                                    | Some c \<Rightarrow> w'\<lparr>cursorStore := (cursorStore w')(k \<mapsto> c)\<rparr>)
                      entries w)\<lparr>cursorsLoaded := True\<rparr>))"

definition scheduleSaveCursors :: "world \<Rightarrow> world" where
  "scheduleSaveCursors w = (if saveTimer w then w else emit SetSaveTimer (w\<lparr>saveTimer := True\<rparr>))"

definition getCursorKey :: "string \<Rightarrow> string option \<Rightarrow> string" where
  "getCursorKey accId kf = accId @ '':'' @ (case kf of None \<Rightarrow> ''all'' | Some k \<Rightarrow> k)"

definition DEDUP_TTL_MS :: int where
  "DEDUP_TTL_MS = 10 * 60 * 1000"

definition pruneProcessedMsgIds :: "environment \<Rightarrow> world \<Rightarrow> world" where
  "pruneProcessedMsgIds env w =
     (let cutoff = dateNow env w - DEDUP_TTL_MS in
      (tick w)\<lparr>processedMsgIds :=
         (\<lambda>id. case processedMsgIds w id of
                  None \<Rightarrow> None
                | Some ts \<Rightarrow> if ts < cutoff then None else Some ts)\<rparr>)"

definition isDuplicate :: "environment \<Rightarrow> string \<Rightarrow> world \<Rightarrow> bool \<times> world" where
  "isDuplicate env mid w =
     (case processedMsgIds w mid of
        Some ts \<Rightarrow> (True, w)
      | None \<Rightarrow> (False, (tick w)\<lparr>processedMsgIds := (processedMsgIds w)(mid \<mapsto> dateNow env w)\<rparr>))"

section \<open>Event handling (webhook module)\<close>

text \<open>
  \<open>String.prototype.trim\<close> removes white space and line terminators at both ends.
\<close>

definition isWhiteSpace :: "codepoint \<Rightarrow> bool" where
  "isWhiteSpace c =
     (c \<in> {0x09, 0x0A, 0x0B, 0x0C, 0x0D, 0x20, 0xA0, 0x1680, 0x2028, 0x2029, 0x202F, 0x205F,
            0x3000, 0xFEFF} \<or> (0x2000 \<le> c \<and> c \<le> 0x200A))"

definition trimStart :: "jsstring \<Rightarrow> jsstring" where
  "trimStart s = dropWhile isWhiteSpace s"

definition trim :: "jsstring \<Rightarrow> jsstring" where
  "trim s = rev (dropWhile isWhiteSpace (rev (dropWhile isWhiteSpace s)))"

definition handleKfEvent ::
  "environment \<Rightarrow> SyncMsgItem \<Rightarrow> ResolvedWecomKfAccount \<Rightarrow> world \<Rightarrow> world" where
  "handleKfEvent env msg acc w =
     (let eventType = (case event msg of None \<Rightarrow> [] | Some e \<Rightarrow> event_type e) in
      if eventType = ''enter_session'' then
        (let welcomeCode = (case event msg of None \<Rightarrow> None | Some e \<Rightarrow> welcome_code e);
             welcomeTxt = map_option trim (welcomeText acc) in
         case welcomeCode of
           None \<Rightarrow> w
         | Some code \<Rightarrow>
             (case welcomeTxt of
                None \<Rightarrow> w
              | Some txt \<Rightarrow>
                  if code \<noteq> [] \<and> txt \<noteq> [] then
                    (let w1 = emit (SendKfWelcomeMessageCall code ''text'' txt) w in
                     case sendKfWelcomeMessage env code txt of
                       None \<Rightarrow> emit (Log INFO (WelcomeSent (external_userid msg))) w1
                     | Some e \<Rightarrow> emit (Log ERROR (WelcomeFailed e)) w1)
                  else w))
      else if eventType = ''msg_send_fail'' then
        emit (Log WARN (MsgSendFail (case event msg of None \<Rightarrow> None | Some e \<Rightarrow> fail_msgid e)
                                    (case event msg of None \<Rightarrow> None | Some e \<Rightarrow> fail_type e))) w
      else if eventType = ''servicer_status_change'' \<or> eventType = ''session_status_change'' then
        emit (Log INFO (StatusChange eventType (external_userid msg))) w
      else emit (Log DEBUG (UnhandledEvent eventType)) w)"

section \<open>Pull and dispatch (webhook module)\<close>

text \<open>
  The body of the \<open>for\<close> loop over \<open>resp.msg_list\<close>, for one item.  Neither \<open>statusSink\<close>
  nor the logger is taken to throw.
\<close>

definition processMsg :: "environment \<Rightarrow> WebhookTarget \<Rightarrow> SyncMsgItem \<Rightarrow> world \<Rightarrow> world" where
  "processMsg env target msg w =
     (case (if msgid msg \<noteq> [] then isDuplicate env (msgid msg) w else (False, w)) of
        (dup, w1) \<Rightarrow>
          if dup then w1
          else if msgtype msg = ''event'' then
            handleKfEvent env msg (account target) (emit (HandleKfEventCall msg) w1)
          else if origin msg \<noteq> 3 then w1
          else if core env then
            (let w2 = emit (DispatchKfMessageCall msg) w1 in
             case dispatchKfMessage env msg of
               None \<Rightarrow>
                 if hasStatusSink target then emit (StatusSinkOutbound (dateNow env w2)) (tick w2)
                 else w2
             | Some e \<Rightarrow> emit (Log ERROR (DispatchFailed (msgid msg) e)) w2)
          else emit (Log WARN RuntimeUnavailable) w1)"

text \<open>
  The local variables of \<open>pullAndDispatchMessages\<close> that the loop reads and never
  writes.
\<close>

record drain_locals =
  callbackToken :: "string option"
  effectiveOpenKfId :: string
  cursorKey :: string
  isColdStart :: bool

text \<open>
  What the upstream does in one pass through the loop: the outcome of
  \<open>getAccessToken\<close> inside \<open>syncMessages\<close> and the outcome of the request.
\<close>

record fetch_step =
  accessToken :: "string result"
  reply :: "SyncMsgResponse result"

definition syncParams :: "drain_locals \<Rightarrow> string \<Rightarrow> sync_params" where
  "syncParams L cursor =
     \<lparr>p_cursor = (if cursor \<noteq> [] then Some cursor else None),
      p_token = (if cursor \<noteq> [] then None
                 else if truthy (callbackToken L) then callbackToken L else None),
      p_open_kfid = Some (effectiveOpenKfId L),
      p_limit = Some 1000\<rparr>"

text \<open>
  One pass through the body of \<open>while (hasMore)\<close>.  The result is the new value of
  \<open>hasMore\<close>, the new value of \<open>cursor\<close> and the new state.
\<close>

definition iteration ::
  "environment \<Rightarrow> WebhookTarget \<Rightarrow> drain_locals \<Rightarrow> string \<Rightarrow> fetch_step \<Rightarrow> world
     \<Rightarrow> bool \<times> string \<times> world" where
  "iteration env target L cursor u w =
     (let params = syncParams L cursor;
          w0 = emit (SyncMessagesCall (syncRequestBody params)) w in
      case syncMessages (accessToken u) params (reply u) of
        Inl e \<Rightarrow> (False, cursor, emit (Log ERROR (SyncMsgFailed e)) w0)
      | Inr resp \<Rightarrow>
          (let cursor1 = (if next_cursor resp \<noteq> [] then next_cursor resp else cursor);
               w1 = (if next_cursor resp \<noteq> []
                     then scheduleSaveCursors
                            (w0\<lparr>cursorStore := (cursorStore w0)(cursorKey L \<mapsto> next_cursor resp)\<rparr>)
                     else w0);
               hasMore = (has_more resp = 1) in
           if msg_list resp = [] then (False, cursor1, w1)
           else if isColdStart L then
             (hasMore, cursor1, emit (Log INFO (ColdStartSkipped (length (msg_list resp)))) w1)
           else (hasMore, cursor1, fold (processMsg env target) (msg_list resp) w1)))"

text \<open>
  The loop consumes one \<open>fetch_step\<close> per pass.  \<open>Returned\<close> is the state in which the
  loop has ended; \<open>AwaitingFetch\<close> is the state in which the loop asks for a page beyond
  the steps given, so the run is not over.
\<close>

datatype drain_result = Returned world | AwaitingFetch world

fun final :: "drain_result \<Rightarrow> world" where
  "final (Returned w) = w"
| "final (AwaitingFetch w) = w"

fun pullLoop ::
  "environment \<Rightarrow> WebhookTarget \<Rightarrow> drain_locals \<Rightarrow> string \<Rightarrow> world \<Rightarrow> fetch_step list
     \<Rightarrow> drain_result" where
  "pullLoop env target L cursor w [] = AwaitingFetch w"
| "pullLoop env target L cursor w (u # us) =
     (case iteration env target L cursor u w of
        (hasMore, cursor', w') \<Rightarrow>
          if hasMore then pullLoop env target L cursor' w' us else Returned w')"

text \<open>\<open>account.openKfId || callbackOpenKfId\<close>\<close>

definition resolveOpenKfId :: "ResolvedWecomKfAccount \<Rightarrow> string option \<Rightarrow> string option" where
  "resolveOpenKfId acc cbOpenKfId = (if truthy (openKfId acc) then openKfId acc else cbOpenKfId)"

definition pullAndDispatchMessages ::
  "environment \<Rightarrow> WebhookTarget \<Rightarrow> string option \<Rightarrow> string option \<Rightarrow> world \<Rightarrow> fetch_step list
     \<Rightarrow> drain_result" where
  "pullAndDispatchMessages env target cbToken cbOpenKfId w steps =
     (let acc = account target in
      if \<not> truthy (corpId acc) \<or> \<not> truthy (corpSecret acc) then
        Returned (emit (Log WARN MissingCorpCredentials) w)
      else
        (let w1 = pruneProcessedMsgIds env w in
         case resolveOpenKfId acc cbOpenKfId of
           None \<Rightarrow> Returned (emit (Log WARN NoOpenKfId) w1)
         | Some kf \<Rightarrow>
             if kf = [] then Returned (emit (Log WARN NoOpenKfId) w1)
             else
               (let w2 = loadCursors env w1;
                    key = getCursorKey (accountId acc) (Some kf);
                    cursor = (case cursorStore w2 key of None \<Rightarrow> [] | Some c \<Rightarrow> c);
                    cold = (cursor = []);
                    w3 = (if cold then emit (Log INFO (ColdStartFor key)) w2 else w2) in
                pullLoop env target
                  \<lparr>callbackToken = cbToken, effectiveOpenKfId = kf, cursorKey = key,
                   isColdStart = cold\<rparr> cursor w3 steps)))"

section \<open>Account resolution and webhook registration (config.ts, channel.ts, webhook module)\<close>

text \<open>
  The field \<open>configured\<close> of a resolved account, as \<open>resolveAccount\<close> computes it:
  \<open>Boolean(token && encodingAESKey && corpId && corpSecret && openKfId)\<close>.
\<close>

definition configured :: "ResolvedWecomKfAccount \<Rightarrow> bool" where
  "configured acc =
     (truthy (token acc) \<and> truthy (encodingAESKey acc) \<and> truthy (corpId acc)
      \<and> truthy (corpSecret acc) \<and> truthy (openKfId acc))"

text \<open>A path is a \<open>string\<close>; \<open>trim\<close> on it removes the same white space.\<close>

definition trimPath :: "string \<Rightarrow> string" where
  "trimPath s =
     rev (dropWhile (\<lambda>c. isWhiteSpace (of_char c)) (rev (dropWhile (\<lambda>c. isWhiteSpace (of_char c)) s)))"

definition normalizeWebhookPath :: "string \<Rightarrow> string" where
  "normalizeWebhookPath raw =
     (let trimmed = trimPath raw in
      if trimmed = [] then ''/''
      else
        (let withSlash = (if take 1 trimmed = ''/'' then trimmed else ''/'' @ trimmed) in
         if length withSlash > 1 \<and> last withSlash = CHR ''/'' then butlast withSlash
         else withSlash))"

text \<open>
  The registry \<open>webhookTargets\<close>.  \<open>registerWebhookTarget\<close> appends the target under its
  normalized path.  The function it returns removes the target object it has added;
  in the model the object is named by its key and its position in the list.
\<close>

type_synonym registry = "string \<rightharpoonup> WebhookTarget list"

definition registerWebhookTarget :: "WebhookTarget \<Rightarrow> registry \<Rightarrow> registry" where
  "registerWebhookTarget target r =
     (let key = normalizeWebhookPath (path target);
          normalizedTarget = target\<lparr>path := key\<rparr>;
          existing = (case r key of None \<Rightarrow> [] | Some ts \<Rightarrow> ts) in
      r(key \<mapsto> existing @ [normalizedTarget]))"

definition unregisterWebhookTarget :: "string \<Rightarrow> nat \<Rightarrow> registry \<Rightarrow> registry" where
  "unregisterWebhookTarget key i r =
     (let existing = (case r key of None \<Rightarrow> [] | Some ts \<Rightarrow> ts);
          updated = take i existing @ drop (Suc i) existing in
      if updated \<noteq> [] then r(key \<mapsto> updated) else r(key := None))"

text \<open>
  \<open>gateway.startAccount\<close> of channel.ts, the only caller of \<open>registerWebhookTarget\<close>: an
  account that is not configured is not registered; the target of a configured one
  carries a \<open>statusSink\<close>.  \<open>webhookPath\<close> is \<open>account.config.webhookPath\<close>.  The status
  reports and the log lines are left out.
\<close>

definition startAccount :: "ResolvedWecomKfAccount \<Rightarrow> string option \<Rightarrow> registry \<Rightarrow> registry" where
  "startAccount acc webhookPath r =
     (if \<not> configured acc then r
      else registerWebhookTarget
             \<lparr>account = acc,
              path = trimPath (case webhookPath of None \<Rightarrow> ''/wecom-kf'' | Some p \<Rightarrow> p),
              hasStatusSink = True\<rparr> r)"

text \<open>
  The registries the process can be in: empty at load, then changed by \<open>startAccount\<close>
  and by the functions that \<open>registerWebhookTarget\<close> has returned (called by
  \<open>startAccount\<close> for the account's earlier registration and by \<open>stopAccount\<close>).
\<close>

inductive registered :: "registry \<Rightarrow> bool" where
  atLoad: "registered Map.empty"
| started: "registered r \<Longrightarrow> registered (startAccount acc webhookPath r)"
| unregistered: "registered r \<Longrightarrow> registered (unregisterWebhookTarget key i r)"

section \<open>Main HTTP handler (webhook module)\<close>

text \<open>
  A request is given by its method, by \<open>resolvePath(req)\<close>, by the \<open>get\<close> function of
  \<open>resolveQueryParams(req)\<close> and by the value \<open>readRawBody\<close> resolves to.
\<close>

record raw_body =
  rb_ok :: bool
  rb_raw :: "jsstring option"
  rb_error :: "string option"

record request =
  req_method :: string
  req_path :: string
  req_query :: "string \<rightharpoonup> string"
  req_body :: raw_body

record response =
  statusCode :: nat
  headers :: "(string \<times> string) list"
  res_body :: jsstring

text \<open>The call \<open>pullAndDispatchMessages(target, callbackToken, callbackOpenKfId)\<close>.\<close>

record drain_call =
  dc_target :: WebhookTarget
  dc_callbackToken :: "string option"
  dc_callbackOpenKfId :: "string option"

text \<open>
  The result of the handler: the value it returns, the response it has sent (none
  when it returns false), the drain it has started (if any) and the state.
\<close>

record handler_result =
  returned :: bool
  sent :: "response option"
  started :: "drain_call option"
  after :: world

definition respond :: "nat \<Rightarrow> (string \<times> string) list \<Rightarrow> jsstring \<Rightarrow> world \<Rightarrow> handler_result" where
  "respond code hs b w =
     \<lparr>returned = True, sent = Some \<lparr>statusCode = code, headers = hs, res_body = b\<rparr>,
      started = None, after = w\<rparr>"

definition orEmpty :: "string option \<Rightarrow> string" where
  "orEmpty x = (case x of None \<Rightarrow> [] | Some s \<Rightarrow> s)"

definition falsyToUndefined :: "string option \<Rightarrow> string option" where
  "falsyToUndefined x = (if truthy x then x else None)"

definition isXmlFormat :: "jsstring \<Rightarrow> bool" where
  "isXmlFormat raw = (case trimStart raw of [] \<Rightarrow> False | c # _ \<Rightarrow> c = 0x3C)"

text \<open>The filter that keeps the targets whose token verifies the signature.\<close>

definition signatureMatches ::
  "environment \<Rightarrow> string \<Rightarrow> string \<Rightarrow> string \<Rightarrow> string \<Rightarrow> WebhookTarget \<Rightarrow> bool" where
  "signatureMatches env timestamp nonce encrypt signature t =
     (case token (account t) of
        None \<Rightarrow> False
      | Some tok \<Rightarrow> tok \<noteq> [] \<and> verifyWecomSignature env tok timestamp nonce encrypt signature)"

definition handleGet ::
  "environment \<Rightarrow> WebhookTarget list \<Rightarrow> string \<Rightarrow> string \<Rightarrow> string \<Rightarrow> request \<Rightarrow> world
     \<Rightarrow> handler_result" where
  "handleGet env targets timestamp nonce signature req w =
     (let echostr = orEmpty (req_query req ''echostr'') in
      if timestamp = [] \<or> nonce = [] \<or> signature = [] \<or> echostr = [] then
        respond 400 [] (js ''missing query params'') w
      else
        (case filter (signatureMatches env timestamp nonce echostr signature) targets of
           [] \<Rightarrow> respond 401 [] (js ''unauthorized'') w
         | target # _ \<Rightarrow>
             (case encodingAESKey (account target) of
                None \<Rightarrow> respond 401 [] (js ''unauthorized'') w
              | Some key \<Rightarrow>
                  if key = [] then respond 401 [] (js ''unauthorized'') w
                  else
                    (case decryptWecomEncrypted env key (corpId (account target)) echostr of
                       Inr plaintext \<Rightarrow>
                         respond 200 [(''Content-Type'', ''text/plain; charset=utf-8'')] plaintext w
                     | Inl e \<Rightarrow>
                         respond 400 [] (js ''decrypt failed'')
                           (emit (Log ERROR (EchostrDecryptFailed e)) w)))))"

text \<open>
  The code after \<open>res.end("success")\<close>: the callback body is decrypted and parsed for
  \<open>Token\<close> and \<open>OpenKfId\<close>, then \<open>statusSink\<close> is told and the drain is started.  The
  result is the pair of \<open>callbackToken\<close> and \<open>callbackOpenKfId\<close> with the state.
\<close>

definition decryptCallback ::
  "environment \<Rightarrow> WebhookTarget \<Rightarrow> string \<Rightarrow> world \<Rightarrow> (string option \<times> string option) \<times> world" where
  "decryptCallback env target encrypt w =
     (case encodingAESKey (account target) of
        None \<Rightarrow> ((None, None), w)
      | Some key \<Rightarrow>
          if key = [] then ((None, None), w)
          else
            (case decryptWecomEncrypted env key (corpId (account target)) encrypt of
               Inl e \<Rightarrow> ((None, None), emit (Log ERROR (CallbackDecryptFailed e)) w)
             | Inr plaintext \<Rightarrow>
                 (let w1 = emit (Log DEBUG CallbackDecrypted) w in
                  case (if isXmlFormat plaintext then
                          (let xmlData = parseXmlBody env plaintext in
                           ((xmlData ''Token'', xmlData ''OpenKfId''),
                            emit (Log DEBUG CallbackXmlFields) w1))
                        else
                          (case jsonParse env plaintext of
                             None \<Rightarrow> ((None, None), emit (Log WARN CallbackNotXmlNorJson) w1)
                           | Some JsonNull \<Rightarrow>
                               ((None, None), emit (Log WARN CallbackNotXmlNorJson) w1)
                           | Some (JsonValue jsonData) \<Rightarrow>
                               ((Some (case jsonData ''Token'' of
                                         Some v \<Rightarrow> v
                                       | None \<Rightarrow> orEmpty (jsonData ''token'')),
                                 Some (case jsonData ''OpenKfId'' of
                                         Some v \<Rightarrow> v
                                       | None \<Rightarrow> orEmpty (jsonData ''open_kfid''))),
                                emit (Log DEBUG CallbackJsonKeys) w1))) of
                    ((tok, kf), w2) \<Rightarrow>
                      ((falsyToUndefined tok, falsyToUndefined kf),
                       emit (Log INFO (CallbackReceived (falsyToUndefined kf)
                                         (truthy (falsyToUndefined tok)))) w2))))"

definition afterAck ::
  "environment \<Rightarrow> WebhookTarget \<Rightarrow> string \<Rightarrow> world \<Rightarrow> handler_result" where
  "afterAck env target encrypt w =
     (case decryptCallback env target encrypt w of
        ((tok, kf), w1) \<Rightarrow>
          \<lparr>returned = True,
           sent = Some \<lparr>statusCode = 200,
                        headers = [(''Content-Type'', ''text/plain; charset=utf-8'')],
                        res_body = js ''success''\<rparr>,
           started = Some \<lparr>dc_target = target, dc_callbackToken = tok, dc_callbackOpenKfId = kf\<rparr>,
           after = (if hasStatusSink target then emit (StatusSinkInbound (dateNow env w1)) (tick w1)
                    else w1)\<rparr>)"

text \<open>
  The part of the POST branch that reads the body: the encrypted payload and the
  signature, timestamp and nonce to verify it with (\<open>encrypt\<close>, \<open>msgSignature\<close>,
  \<open>msgTimestamp\<close>, \<open>msgNonce\<close>); \<open>None\<close> when the \<open>catch\<close> block is entered: \<open>JSON.parse\<close>
  throws, or it returns null and the property access throws.
\<close>

definition readEnvelope ::
  "environment \<Rightarrow> string \<Rightarrow> string \<Rightarrow> string \<Rightarrow> jsstring
     \<Rightarrow> (string \<times> string \<times> string \<times> string) option" where
  "readEnvelope env signature timestamp nonce rawBody =
     (if isXmlFormat rawBody then
        (let xmlData = parseXmlBody env rawBody in
         Some (orEmpty (xmlData ''Encrypt''),
               (case xmlData ''MsgSignature'' of None \<Rightarrow> signature | Some v \<Rightarrow> v),
               (case xmlData ''TimeStamp'' of None \<Rightarrow> timestamp | Some v \<Rightarrow> v),
               (case xmlData ''Nonce'' of None \<Rightarrow> nonce | Some v \<Rightarrow> v)))
      else
        (case jsonParse env rawBody of
           None \<Rightarrow> None
         | Some JsonNull \<Rightarrow> None
         | Some (JsonValue parsed) \<Rightarrow>
             Some ((case parsed ''encrypt'' of
                      Some v \<Rightarrow> v
                    | None \<Rightarrow> orEmpty (parsed ''Encrypt'')),
                   signature, timestamp, nonce)))"

definition handlePost ::
  "environment \<Rightarrow> WebhookTarget list \<Rightarrow> string \<Rightarrow> string \<Rightarrow> string \<Rightarrow> request \<Rightarrow> world
     \<Rightarrow> handler_result" where
  "handlePost env targets timestamp nonce signature req w =
     (if timestamp = [] \<or> nonce = [] \<or> signature = [] then
        respond 400 [] (js ''missing query params'') w
      else
        (let body = req_body req in
         if \<not> rb_ok body \<or> \<not> truthy (rb_raw body) then
           respond (if rb_error body = Some ''payload too large'' then 413 else 400) []
             (case rb_error body of None \<Rightarrow> js ''invalid payload'' | Some e \<Rightarrow> js e) w
         else
           (case readEnvelope env signature timestamp nonce
                   (case rb_raw body of None \<Rightarrow> [] | Some r \<Rightarrow> r) of
              None \<Rightarrow> respond 400 [] (js ''invalid payload format'') w
            | Some (encrypt, msgSignature, msgTimestamp, msgNonce) \<Rightarrow>
                if encrypt = [] then respond 400 [] (js ''missing encrypt'') w
                else
                  (case filter (signatureMatches env msgTimestamp msgNonce encrypt msgSignature)
                          targets of
                     [] \<Rightarrow> respond 401 [] (js ''unauthorized'') w
                   | target # _ \<Rightarrow> afterAck env target encrypt w))))"

definition handleWecomKfWebhookRequest :: "environment \<Rightarrow> request \<Rightarrow> world \<Rightarrow> handler_result" where
  "handleWecomKfWebhookRequest env req w =
     (case webhookTargets w (req_path req) of
        None \<Rightarrow> \<lparr>returned = False, sent = None, started = None, after = w\<rparr>
      | Some targets \<Rightarrow>
          if targets = [] then \<lparr>returned = False, sent = None, started = None, after = w\<rparr>
          else
            (let timestamp = orEmpty (req_query req ''timestamp'');
                 nonce = orEmpty (req_query req ''nonce'');
                 signature = (case req_query req ''msg_signature'' of
                                Some s \<Rightarrow> s
                              | None \<Rightarrow> orEmpty (req_query req ''signature'')) in
             if req_method req = ''GET'' then handleGet env targets timestamp nonce signature req w
             else if req_method req \<noteq> ''POST'' then
               respond 405 [(''Allow'', ''GET, POST'')] (js ''Method Not Allowed'') w
             else handlePost env targets timestamp nonce signature req w))"

section \<open>Reading a trace\<close>

text \<open>
  The items handed to the event router or to the dispatch collaborator, the items
  handed to the dispatch collaborator, the welcome sends and the number of calls of
  \<open>syncMessages\<close> that a trace records.
\<close>

fun routedItem :: "effect \<Rightarrow> SyncMsgItem option" where
  "routedItem (HandleKfEventCall m) = Some m"
| "routedItem (DispatchKfMessageCall m) = Some m"
| "routedItem _ = None"

definition dispatched :: "effect list \<Rightarrow> SyncMsgItem list" where
  "dispatched tr = List.map_filter routedItem tr"

fun forwardedItem :: "effect \<Rightarrow> SyncMsgItem option" where
  "forwardedItem (DispatchKfMessageCall m) = Some m"
| "forwardedItem _ = None"

definition forwarded :: "effect list \<Rightarrow> SyncMsgItem list" where
  "forwarded tr = List.map_filter forwardedItem tr"

fun welcomeSend :: "effect \<Rightarrow> (string \<times> string \<times> jsstring) option" where
  "welcomeSend (SendKfWelcomeMessageCall code ty txt) = Some (code, ty, txt)"
| "welcomeSend _ = None"

definition welcomeSends :: "effect list \<Rightarrow> (string \<times> string \<times> jsstring) list" where
  "welcomeSends tr = List.map_filter welcomeSend tr"

fun isFetch :: "effect \<Rightarrow> bool" where
  "isFetch (SyncMessagesCall p) = True"
| "isFetch _ = False"

definition fetchCalls :: "effect list \<Rightarrow> nat" where
  "fetchCalls tr = length (filter isFetch tr)"

text \<open>
  For a message id: how many items with that id a trace shows handed to the event
  router or the dispatch collaborator, and whether the dedup map lacks the id (1) or
  has it (0).
\<close>

definition handed :: "string \<Rightarrow> world \<Rightarrow> nat" where
  "handed mid w = length (filter (\<lambda>m. msgid m = mid) (dispatched (trace w)))"

definition unseen :: "string \<Rightarrow> world \<Rightarrow> nat" where
  "unseen mid w = (if processedMsgIds w mid = None then 1 else 0)"

text \<open>Whether the loop of a drain has ended.\<close>

fun hasReturned :: "drain_result \<Rightarrow> bool" where
  "hasReturned (Returned w) = True"
| "hasReturned (AwaitingFetch w) = False"

text \<open>
  The result of \<open>syncMessages\<close> for a step of the upstream; it does not depend on the
  request parameters.
\<close>

definition outcome :: "fetch_step \<Rightarrow> SyncMsgResponse result" where
  "outcome u = syncMessages (accessToken u)
                 \<lparr>p_cursor = None, p_token = None, p_open_kfid = None, p_limit = None\<rparr> (reply u)"

text \<open>
  The entry of the cursor store after a run of successful pages, from the entry
  before: the last next-cursor that is not empty.
\<close>

fun lastStored :: "string option \<Rightarrow> SyncMsgResponse list \<Rightarrow> string option" where
  "lastStored c [] = c"
| "lastStored c (p # ps) = lastStored (if next_cursor p \<noteq> [] then Some (next_cursor p) else c) ps"

text \<open>
  The cursor update of one pass through the loop, on its own:
  \<open>if (resp.next_cursor) { cursorStore.set(...); scheduleSaveCursors(); }\<close>.
\<close>

definition storeCursor :: "drain_locals \<Rightarrow> SyncMsgResponse \<Rightarrow> world \<Rightarrow> world" where
  "storeCursor L resp w0 =
     (if next_cursor resp \<noteq> []
      then scheduleSaveCursors (w0\<lparr>cursorStore := (cursorStore w0)(cursorKey L \<mapsto> next_cursor resp)\<rparr>)
      else w0)"

section \<open>Sample inputs\<close>

text \<open>
  A tenant, an environment and a state on which the theorems below are exercised.  The
  sample signature of a request is the concatenation of token, timestamp, nonce and
  payload; the sample decryption fails on the payload \<open>bad\<close> and returns every other
  payload as it is; the sample JSON parser parses the one text \<open>{"encrypt":"bad"}\<close> and
  throws on every other.
\<close>

definition sampleAccount :: ResolvedWecomKfAccount where
  "sampleAccount =
     \<lparr>accountId = ''default'', token = Some ''tok'', encodingAESKey = Some ''aeskey'',
      corpId = Some ''corp'', corpSecret = Some ''secret'', openKfId = Some ''wk1'',
      welcomeText = Some (js ''hello'')\<rparr>"

definition sampleTarget :: WebhookTarget where
  "sampleTarget = \<lparr>account = sampleAccount, path = ''/wecom-kf'', hasStatusSink = True\<rparr>"

definition sampleClock :: "nat \<Rightarrow> int" where
  "sampleClock k = 1000 + int k"

definition sampleVerify :: "string \<Rightarrow> string \<Rightarrow> string \<Rightarrow> string \<Rightarrow> string \<Rightarrow> bool" where
  "sampleVerify tok timestamp nonce encrypt signature = (signature = tok @ timestamp @ nonce @ encrypt)"

definition sampleDecrypt :: "string \<Rightarrow> string option \<Rightarrow> string \<Rightarrow> jsstring result" where
  "sampleDecrypt key receiveId encrypt =
     (if encrypt = ''bad'' then Inl (Thrown ''decrypt failed'') else Inr (js encrypt))"

definition sampleXml :: "jsstring \<Rightarrow> (string \<rightharpoonup> string)" where
  "sampleXml raw = Map.empty"

text \<open>The text \<open>{"encrypt":"bad"}\<close>, by its code points.\<close>

definition sampleBody :: jsstring where
  "sampleBody = [123, 34, 101, 110, 99, 114, 121, 112, 116, 34, 58, 34, 98, 97, 100, 34, 125]"

definition sampleJson :: "jsstring \<Rightarrow> json option" where
  "sampleJson raw =
     (if raw = sampleBody then Some (JsonValue [''encrypt'' \<mapsto> ''bad'']) else None)"

definition sampleDispatch :: "SyncMsgItem \<Rightarrow> err option" where
  "sampleDispatch m = None"

definition sampleWelcome :: "string \<Rightarrow> jsstring \<Rightarrow> err option" where
  "sampleWelcome code txt = None"

definition sampleEnv :: environment where
  "sampleEnv =
     \<lparr>clock = sampleClock, cursorFile = None, core = True,
      dispatchKfMessage = sampleDispatch, sendKfWelcomeMessage = sampleWelcome,
      verifyWecomSignature = sampleVerify, decryptWecomEncrypted = sampleDecrypt,
      parseXmlBody = sampleXml, jsonParse = sampleJson\<rparr>"

definition sampleWorld :: "(string \<rightharpoonup> string) \<Rightarrow> world" where
  "sampleWorld cursors =
     \<lparr>webhookTargets = [''/wecom-kf'' \<mapsto> [sampleTarget]], cursorStore = cursors,
      cursorsLoaded = True, saveTimer = False, processedMsgIds = Map.empty,
      accessTokenCache = Map.empty, ticks = 0, trace = []\<rparr>"

definition sampleItem :: "string \<Rightarrow> string \<Rightarrow> int \<Rightarrow> SyncMsgItem" where
  "sampleItem mid ty orig =
     \<lparr>msgid = mid, msgtype = ty, origin = orig, external_userid = ''user1'', event = None\<rparr>"

definition samplePage :: "string \<Rightarrow> int \<Rightarrow> SyncMsgItem list \<Rightarrow> SyncMsgResponse" where
  "samplePage next hm items =
     \<lparr>errcode = Some 0, errmsg = Some ''ok'', next_cursor = next, has_more = hm,
      msg_list = items\<rparr>"

definition sampleStep :: "SyncMsgResponse \<Rightarrow> fetch_step" where
  "sampleStep p = \<lparr>accessToken = Inr ''AT'', reply = Inr p\<rparr>"

definition failedStep :: fetch_step where
  "failedStep =
     \<lparr>accessToken = Inr ''AT'',
      reply = Inr \<lparr>errcode = Some 40014, errmsg = Some ''invalid access_token'', next_cursor = [],
                   has_more = 0, msg_list = []\<rparr>\<rparr>"

definition sampleEnterSession :: "string option \<Rightarrow> SyncMsgItem" where
  "sampleEnterSession code =
     \<lparr>msgid = ''e1'', msgtype = ''event'', origin = 4, external_userid = ''user1'',
      event = Some \<lparr>event_type = ''enter_session'', welcome_code = code, fail_msgid = None,
                    fail_type = None\<rparr>\<rparr>"

definition sampleTokenReply :: "string \<Rightarrow> gettoken_reply result" where
  "sampleTokenReply t = Inr \<lparr>gt_errcode = Some 0, gt_errmsg = Some ''ok'', access_token = Some t\<rparr>"

definition emptyBody :: raw_body where
  "emptyBody = \<lparr>rb_ok = True, rb_raw = None, rb_error = None\<rparr>"

definition sampleGet :: "string \<Rightarrow> string \<Rightarrow> request" where
  "sampleGet echostr signature =
     \<lparr>req_method = ''GET'', req_path = ''/wecom-kf'',
      req_query = [''timestamp'' \<mapsto> ''1'', ''nonce'' \<mapsto> ''n'', ''msg_signature'' \<mapsto> signature,
                   ''echostr'' \<mapsto> echostr],
      req_body = emptyBody\<rparr>"

definition samplePost :: "string \<Rightarrow> request" where
  "samplePost signature =
     \<lparr>req_method = ''POST'', req_path = ''/wecom-kf'',
      req_query = [''timestamp'' \<mapsto> ''1'', ''nonce'' \<mapsto> ''n'', ''msg_signature'' \<mapsto> signature],
      req_body = \<lparr>rb_ok = True, rb_raw = Some sampleBody, rb_error = None\<rparr>\<rparr>"

text \<open>
  A state with no stored cursor and a state with the cursor \<open>c1\<close> stored for the sample
  tenant.
\<close>

definition coldWorld :: world where
  "coldWorld = sampleWorld Map.empty"

definition warmWorld :: world where
  "warmWorld = sampleWorld [''default:wk1'' \<mapsto> ''c1'']"

text \<open>A state in which the id \<open>m1\<close> was recorded 100 ms before the first clock reading.\<close>

definition seenWorld :: world where
  "seenWorld = warmWorld\<lparr>processedMsgIds := [''m1'' \<mapsto> 900]\<rparr>"

section \<open>Properties\<close>

subsection \<open>State, trace and loop lemmas\<close>

lemma emit_simps [simp]:
  "trace (emit e w) = trace w @ [e]"
  "cursorStore (emit e w) = cursorStore w"
  "processedMsgIds (emit e w) = processedMsgIds w"
  "saveTimer (emit e w) = saveTimer w"
  "ticks (emit e w) = ticks w"
  "cursorsLoaded (emit e w) = cursorsLoaded w"
  "accessTokenCache (emit e w) = accessTokenCache w"
  "webhookTargets (emit e w) = webhookTargets w"
  by (simp_all add: emit_def)

lemma tick_simps [simp]:
  "trace (tick w) = trace w"
  "cursorStore (tick w) = cursorStore w"
  "processedMsgIds (tick w) = processedMsgIds w"
  "saveTimer (tick w) = saveTimer w"
  "ticks (tick w) = Suc (ticks w)"
  "cursorsLoaded (tick w) = cursorsLoaded w"
  "accessTokenCache (tick w) = accessTokenCache w"
  "webhookTargets (tick w) = webhookTargets w"
  by (simp_all add: tick_def)

lemma dispatched_append [simp]: "dispatched (a @ b) = dispatched a @ dispatched b"
  by (simp add: dispatched_def map_filter_def)

lemma forwarded_append [simp]: "forwarded (a @ b) = forwarded a @ forwarded b"
  by (simp add: forwarded_def map_filter_def)

lemma welcomeSends_append [simp]: "welcomeSends (a @ b) = welcomeSends a @ welcomeSends b"
  by (simp add: welcomeSends_def map_filter_def)

lemma fetchCalls_append [simp]: "fetchCalls (a @ b) = fetchCalls a + fetchCalls b"
  by (simp add: fetchCalls_def)

lemma dispatched_Nil [simp]: "dispatched [] = []"
  by (simp add: dispatched_def map_filter_def)

lemma dispatched_Cons [simp]:
  "dispatched (e # tr) = (case routedItem e of None \<Rightarrow> dispatched tr | Some m \<Rightarrow> m # dispatched tr)"
  by (simp add: dispatched_def map_filter_def split: option.splits)

lemma forwarded_Nil [simp]: "forwarded [] = []"
  by (simp add: forwarded_def map_filter_def)

lemma forwarded_Cons [simp]:
  "forwarded (e # tr) = (case forwardedItem e of None \<Rightarrow> forwarded tr | Some m \<Rightarrow> m # forwarded tr)"
  by (simp add: forwarded_def map_filter_def split: option.splits)

lemma welcomeSends_Nil [simp]: "welcomeSends [] = []"
  by (simp add: welcomeSends_def map_filter_def)

lemma welcomeSends_Cons [simp]:
  "welcomeSends (e # tr) = (case welcomeSend e of None \<Rightarrow> welcomeSends tr | Some m \<Rightarrow> m # welcomeSends tr)"
  by (simp add: welcomeSends_def map_filter_def split: option.splits)

lemma fetchCalls_Nil [simp]: "fetchCalls [] = 0"
  by (simp add: fetchCalls_def)

lemma fetchCalls_Cons [simp]: "fetchCalls (e # tr) = (if isFetch e then 1 else 0) + fetchCalls tr"
  by (simp add: fetchCalls_def)

lemma syncMessages_params: "syncMessages a p h = syncMessages a q h"
  by (simp add: syncMessages_def)

lemma syncMessages_outcome: "syncMessages (accessToken u) p (reply u) = outcome u"
  by (simp add: outcome_def syncMessages_def)

lemma handleKfEvent_keeps [simp]:
  "cursorStore (handleKfEvent env msg acc w) = cursorStore w"
  "processedMsgIds (handleKfEvent env msg acc w) = processedMsgIds w"
  "saveTimer (handleKfEvent env msg acc w) = saveTimer w"
  "dispatched (trace (handleKfEvent env msg acc w)) = dispatched (trace w)"
  "forwarded (trace (handleKfEvent env msg acc w)) = forwarded (trace w)"
  "fetchCalls (trace (handleKfEvent env msg acc w)) = fetchCalls (trace w)"
  by (simp_all add: handleKfEvent_def Let_def split: option.splits)

lemma isDuplicate_keeps [simp]:
  "cursorStore (snd (isDuplicate env i w)) = cursorStore w"
  "saveTimer (snd (isDuplicate env i w)) = saveTimer w"
  "trace (snd (isDuplicate env i w)) = trace w"
  by (simp_all add: isDuplicate_def split: option.splits)

lemma processMsg_keeps [simp]:
  "cursorStore (processMsg env target msg w) = cursorStore w"
  "saveTimer (processMsg env target msg w) = saveTimer w"
  "fetchCalls (trace (processMsg env target msg w)) = fetchCalls (trace w)"
  by (simp_all add: processMsg_def Let_def case_prod_beta split: option.splits)

lemma fold_processMsg_keeps [simp]:
  "cursorStore (fold (processMsg env target) ms w) = cursorStore w"
  "saveTimer (fold (processMsg env target) ms w) = saveTimer w"
  "fetchCalls (trace (fold (processMsg env target) ms w)) = fetchCalls (trace w)"
  by (induction ms arbitrary: w) simp_all

lemma scheduleSaveCursors_simps [simp]:
  "cursorStore (scheduleSaveCursors w) = cursorStore w"
  "saveTimer (scheduleSaveCursors w) = True"
  "processedMsgIds (scheduleSaveCursors w) = processedMsgIds w"
  "dispatched (trace (scheduleSaveCursors w)) = dispatched (trace w)"
  "forwarded (trace (scheduleSaveCursors w)) = forwarded (trace w)"
  "fetchCalls (trace (scheduleSaveCursors w)) = fetchCalls (trace w)"
  by (simp_all add: scheduleSaveCursors_def)

lemma storeCursor_simps [simp]:
  "cursorStore (storeCursor L resp w) (cursorKey L) =
     (if next_cursor resp \<noteq> [] then Some (next_cursor resp) else cursorStore w (cursorKey L))"
  "processedMsgIds (storeCursor L resp w) = processedMsgIds w"
  "dispatched (trace (storeCursor L resp w)) = dispatched (trace w)"
  "forwarded (trace (storeCursor L resp w)) = forwarded (trace w)"
  "fetchCalls (trace (storeCursor L resp w)) = fetchCalls (trace w)"
  by (simp_all add: storeCursor_def)

lemma iteration_fail:
  assumes "outcome u = Inl e"
  shows "iteration env target L c u w =
           (False, c, emit (Log ERROR (SyncMsgFailed e))
                        (emit (SyncMessagesCall (syncRequestBody (syncParams L c))) w))"
  using assms by (simp add: iteration_def Let_def syncMessages_outcome)

lemma iteration_ok:
  assumes "outcome u = Inr resp"
  shows "iteration env target L c u w =
           (let w1 = storeCursor L resp (emit (SyncMessagesCall (syncRequestBody (syncParams L c))) w);
                c1 = (if next_cursor resp \<noteq> [] then next_cursor resp else c) in
            if msg_list resp = [] then (False, c1, w1)
            else if isColdStart L then
              (has_more resp = 1, c1, emit (Log INFO (ColdStartSkipped (length (msg_list resp)))) w1)
            else (has_more resp = 1, c1, fold (processMsg env target) (msg_list resp) w1))"
  using assms by (simp add: iteration_def Let_def syncMessages_outcome storeCursor_def)

lemma pullLoop_cold:
  assumes "isColdStart L" and "map outcome steps = map Inr pages"
    and "\<forall>p \<in> set pages. msg_list p \<noteq> []"
    and "\<forall>p \<in> set (butlast pages). has_more p = 1"
  shows "dispatched (trace (final (pullLoop env target L c w steps))) = dispatched (trace w)
       \<and> cursorStore (final (pullLoop env target L c w steps)) (cursorKey L)
           = lastStored (cursorStore w (cursorKey L)) pages
       \<and> fetchCalls (trace (final (pullLoop env target L c w steps)))
           = fetchCalls (trace w) + length pages"
  using assms
proof (induction steps arbitrary: pages c w)
  case Nil
  then show ?case by simp
next
  case (Cons u us)
  then obtain p ps where pages: "pages = p # ps" and u: "outcome u = Inr p"
    and rest: "map outcome us = map Inr ps"
    by (cases pages) auto
  have ne: "msg_list p \<noteq> []" using Cons.prems(3) pages by simp
  show ?case
  proof (cases ps)
    case Nil
    with rest have "us = []" by simp
    with pages Nil u ne Cons.prems(1) show ?thesis
      by (simp add: iteration_ok Let_def)
  next
    case (Cons q qs)
    with pages Cons.prems(4) have more: "has_more p = 1" by simp
    have bl: "\<forall>p \<in> set (butlast ps). has_more p = 1"
      using Cons.prems(4) pages Cons by simp
    have al: "\<forall>p \<in> set ps. msg_list p \<noteq> []" using Cons.prems(3) pages by simp
    note IH = Cons.IH [OF Cons.prems(1) rest al bl]
    show ?thesis using pages u ne more Cons.prems(1)
      by (simp add: iteration_ok Let_def IH)
  qed
qed

lemma pullLoop_Cons:
  "pullLoop env target L c w (u # us) =
     (if fst (iteration env target L c u w)
      then pullLoop env target L (fst (snd (iteration env target L c u w)))
             (snd (snd (iteration env target L c u w))) us
      else Returned (snd (snd (iteration env target L c u w))))"
  by (simp add: case_prod_beta)

lemma iteration_page:
  assumes "outcome u = Inr p" and "msg_list p \<noteq> []"
  shows "fst (iteration env target L c u w) = (has_more p = 1)"
    and "cursorStore (snd (snd (iteration env target L c u w))) (cursorKey L) =
           (if next_cursor p \<noteq> [] then Some (next_cursor p) else cursorStore w (cursorKey L))"
    and "fetchCalls (trace (snd (snd (iteration env target L c u w)))) = Suc (fetchCalls (trace w))"
  using assms by (simp_all add: iteration_ok Let_def)

lemma pullLoop_fail:
  assumes "map outcome pre = map Inr pages"
    and "\<forall>p \<in> set pages. has_more p = 1 \<and> msg_list p \<noteq> []"
    and "outcome u = Inl e"
  shows "\<exists>w'. pullLoop env target L c w (pre @ u # us) = Returned w'
       \<and> cursorStore w' (cursorKey L) = lastStored (cursorStore w (cursorKey L)) pages
       \<and> fetchCalls (trace w') = fetchCalls (trace w) + length pre + 1
       \<and> last (trace w') = Log ERROR (SyncMsgFailed e)"
  using assms(1,2)
proof (induction pre arbitrary: pages c w)
  case Nil
  then show ?case using assms(3) by (simp add: iteration_fail)
next
  case (Cons v vs)
  then obtain p ps where pages: "pages = p # ps" and v: "outcome v = Inr p"
    and rest: "map outcome vs = map Inr ps"
    by (cases pages) auto
  have p: "has_more p = 1" "msg_list p \<noteq> []" using Cons.prems(2) pages by simp_all
  have al: "\<forall>p \<in> set ps. has_more p = 1 \<and> msg_list p \<noteq> []" using Cons.prems(2) pages by simp
  let ?it = "iteration env target L c v w"
  have step: "pullLoop env target L c w ((v # vs) @ u # us)
                = pullLoop env target L (fst (snd ?it)) (snd (snd ?it)) (vs @ u # us)"
    using iteration_page(1) [OF v p(2), of env target L c w] p(1)
    by (simp add: pullLoop_Cons del: pullLoop.simps)
  from Cons.IH [OF rest al, of "fst (snd ?it)" "snd (snd ?it)"]
  obtain w' where w': "pullLoop env target L (fst (snd ?it)) (snd (snd ?it)) (vs @ u # us) = Returned w'"
    "cursorStore w' (cursorKey L) = lastStored (cursorStore (snd (snd ?it)) (cursorKey L)) ps"
    "fetchCalls (trace w') = fetchCalls (trace (snd (snd ?it))) + length vs + 1"
    "last (trace w') = Log ERROR (SyncMsgFailed e)"
    by blast
  show ?case
    using step w' pages iteration_page(2,3) [OF v p(2), of env target L c w] by simp
qed

lemma pruneProcessedMsgIds_simps [simp]:
  "trace (pruneProcessedMsgIds env w) = trace w"
  "cursorStore (pruneProcessedMsgIds env w) = cursorStore w"
  "cursorsLoaded (pruneProcessedMsgIds env w) = cursorsLoaded w"
  by (simp_all add: pruneProcessedMsgIds_def Let_def)

lemma fold_load_trace:
  "trace (fold (\<lambda>(k, v) w'. case v of None \<Rightarrow> w'
                 | Some c \<Rightarrow> w'\<lparr>cursorStore := (cursorStore w')(k \<mapsto> c)\<rparr>) entries w) = trace w"
  by (induction entries arbitrary: w) (auto split: option.splits)

lemma fold_load_processed:
  "processedMsgIds (fold (\<lambda>(k, v) w'. case v of None \<Rightarrow> w'
                 | Some c \<Rightarrow> w'\<lparr>cursorStore := (cursorStore w')(k \<mapsto> c)\<rparr>) entries w) = processedMsgIds w"
  by (induction entries arbitrary: w) (auto split: option.splits)

lemma fold_load_store:
  "cursorStore w = cursorStore v \<Longrightarrow>
   cursorStore (fold (\<lambda>(k, v) w'. case v of None \<Rightarrow> w'
                 | Some c \<Rightarrow> w'\<lparr>cursorStore := (cursorStore w')(k \<mapsto> c)\<rparr>) entries w)
   = cursorStore (fold (\<lambda>(k, v) w'. case v of None \<Rightarrow> w'
                 | Some c \<Rightarrow> w'\<lparr>cursorStore := (cursorStore w')(k \<mapsto> c)\<rparr>) entries v)"
  by (induction entries arbitrary: w v) (auto split: option.splits)

lemma loadCursors_simps [simp]:
  "trace (loadCursors env w) = trace w"
  "processedMsgIds (loadCursors env w) = processedMsgIds w"
  by (simp_all add: loadCursors_def fold_load_trace fold_load_processed split: option.splits)

lemma loadCursors_prune [simp]:
  "cursorStore (loadCursors env (pruneProcessedMsgIds env w)) = cursorStore (loadCursors env w)"
  by (auto simp: loadCursors_def split: option.splits intro: fold_load_store)

lemma lastStored_last:
  "pages \<noteq> [] \<Longrightarrow> next_cursor (last pages) \<noteq> [] \<Longrightarrow>
   lastStored c pages = Some (next_cursor (last pages))"
  by (induction pages arbitrary: c) auto

lemma pullLoop_returns:
  assumes "map outcome steps = map Inr pages" and "pages \<noteq> []"
    and "has_more (last pages) \<noteq> 1"
  shows "\<exists>w'. pullLoop env target L c w steps = Returned w'"
  using assms
proof (induction steps arbitrary: pages c w)
  case Nil
  then show ?case by simp
next
  case (Cons u us)
  then obtain p ps where pages: "pages = p # ps" and u: "outcome u = Inr p"
    and rest: "map outcome us = map Inr ps"
    by (cases pages) auto
  show ?case
  proof (cases "fst (iteration env target L c u w)")
    case False
    then show ?thesis by (simp add: pullLoop_Cons del: pullLoop.simps)
  next
    case True
    then have hm: "has_more p = 1"
      using u by (simp add: iteration_ok Let_def split: if_splits)
    with Cons.prems(3) pages have "ps \<noteq> []" by auto
    with Cons.IH [OF rest] Cons.prems(3) pages True show ?thesis
      by (simp add: pullLoop_Cons del: pullLoop.simps)
  qed
qed

lemma drain_unfold:
  assumes "truthy (corpId (account target))" and "truthy (corpSecret (account target))"
    and "resolveOpenKfId (account target) cbOpenKfId = Some kf" and "kf \<noteq> []"
  shows "pullAndDispatchMessages env target cbToken cbOpenKfId w steps =
     (let w2 = loadCursors env (pruneProcessedMsgIds env w);
          key = getCursorKey (accountId (account target)) (Some kf);
          cursor = (case cursorStore w2 key of None \<Rightarrow> [] | Some c \<Rightarrow> c) in
      pullLoop env target
        \<lparr>callbackToken = cbToken, effectiveOpenKfId = kf, cursorKey = key,
         isColdStart = (cursor = [])\<rparr> cursor
        (if cursor = [] then emit (Log INFO (ColdStartFor key)) w2 else w2) steps)"
  using assms by (simp add: pullAndDispatchMessages_def Let_def)

lemmas sample_defs =
  sampleAccount_def sampleTarget_def sampleClock_def sampleVerify_def sampleDecrypt_def
  sampleXml_def sampleJson_def sampleBody_def sampleDispatch_def sampleWelcome_def sampleEnv_def
  sampleWorld_def sampleItem_def samplePage_def sampleStep_def

lemmas drain_defs =
  pullAndDispatchMessages_def resolveOpenKfId_def truthy_def pruneProcessedMsgIds_def
  loadCursors_def getCursorKey_def iteration_def syncParams_def syncRequestBody_def
  syncMessages_def scheduleSaveCursors_def processMsg_def isDuplicate_def handleKfEvent_def
  emit_def tick_def dateNow_def outcome_def Let_def

lemma outcome_fails:
  assumes "(\<exists>e. accessToken u = Inl e) \<or> (\<exists>e. reply u = Inl e)
           \<or> (\<exists>d c. reply u = Inr d \<and> errcode d = Some c \<and> c \<noteq> 0)"
  shows "\<exists>e. outcome u = Inl e"
  using assms by (auto simp: outcome_def syncMessages_def split: sum.splits option.splits)

lemma iteration_fetchCalls:
  "fetchCalls (trace (snd (snd (iteration env target L c u w)))) = Suc (fetchCalls (trace w))"
proof (cases "outcome u")
  case (Inl e)
  then show ?thesis by (simp add: iteration_fail)
next
  case (Inr p)
  then show ?thesis by (simp add: iteration_ok Let_def)
qed

lemma pullLoop_fetchCalls_ge:
  "fetchCalls (trace w) + (if steps = [] then 0 else 1)
     \<le> fetchCalls (trace (final (pullLoop env target L c w steps)))"
proof (induction steps arbitrary: c w)
  case Nil
  then show ?case by simp
next
  case (Cons u us)
  let ?it = "iteration env target L c u w"
  show ?case
  proof (cases "fst ?it")
    case True
    from Cons.IH [where c = "fst (snd ?it)" and w = "snd (snd ?it)"] True
    show ?thesis
      by (simp add: pullLoop_Cons iteration_fetchCalls del: pullLoop.simps split: if_splits)
  next
    case False
    then show ?thesis by (simp add: pullLoop_Cons iteration_fetchCalls del: pullLoop.simps)
  qed
qed

subsection \<open>Lemmas on the items of a page\<close>

lemma processMsg_forwarded:
  "forwarded (trace (processMsg env target msg w)) = forwarded (trace w)
   \<or> (forwarded (trace (processMsg env target msg w)) = forwarded (trace w) @ [msg]
       \<and> origin msg = 3 \<and> msgtype msg \<noteq> ''event'')"
  by (simp add: processMsg_def Let_def case_prod_beta split: option.splits)

lemma processMsg_forwarded_set:
  "set (forwarded (trace (processMsg env target msg w)))
     \<subseteq> set (forwarded (trace w)) \<union> {m. origin m = 3 \<and> msgtype m \<noteq> ''event''}"
  using processMsg_forwarded [of env target msg w] by auto

lemma fold_processMsg_forwarded_set:
  "set (forwarded (trace (fold (processMsg env target) ms w)))
     \<subseteq> set (forwarded (trace w)) \<union> {m. origin m = 3 \<and> msgtype m \<noteq> ''event''}"
proof (induction ms arbitrary: w)
  case Nil
  then show ?case by simp
next
  case (Cons m ms)
  from Cons.IH [of "processMsg env target m w"] processMsg_forwarded_set [of env target m w]
  show ?case by auto
qed

lemma iteration_forwarded_set:
  "set (forwarded (trace (snd (snd (iteration env target L c u w)))))
     \<subseteq> set (forwarded (trace w)) \<union> {m. origin m = 3 \<and> msgtype m \<noteq> ''event''}"
proof (cases "outcome u")
  case (Inl e)
  then show ?thesis by (simp add: iteration_fail)
next
  case (Inr p)
  have "set (forwarded (trace (fold (processMsg env target) (msg_list p)
           (storeCursor L p (emit (SyncMessagesCall (syncRequestBody (syncParams L c))) w)))))
     \<subseteq> set (forwarded (trace w)) \<union> {m. origin m = 3 \<and> msgtype m \<noteq> ''event''}"
    using fold_processMsg_forwarded_set [of env target "msg_list p"
        "storeCursor L p (emit (SyncMessagesCall (syncRequestBody (syncParams L c))) w)"]
    by simp
  with Inr show ?thesis by (simp add: iteration_ok Let_def)
qed

lemma pullLoop_forwarded_set:
  "set (forwarded (trace (final (pullLoop env target L c w steps))))
     \<subseteq> set (forwarded (trace w)) \<union> {m. origin m = 3 \<and> msgtype m \<noteq> ''event''}"
proof (induction steps arbitrary: c w)
  case Nil
  then show ?case by simp
next
  case (Cons u us)
  let ?it = "iteration env target L c u w"
  from Cons.IH [where c = "fst (snd ?it)" and w = "snd (snd ?it)"]
    iteration_forwarded_set [of env target L c u w]
  show ?case by (auto simp: pullLoop_Cons simp del: pullLoop.simps)
qed

lemma drain_cases:
  "(\<exists>l. pullAndDispatchMessages env target cbToken cbOpenKfId w steps
          = Returned (emit (Log WARN l) w))
   \<or> (\<exists>l. pullAndDispatchMessages env target cbToken cbOpenKfId w steps
          = Returned (emit (Log WARN l) (pruneProcessedMsgIds env w)))
   \<or> (\<exists>L c. pullAndDispatchMessages env target cbToken cbOpenKfId w steps
          = pullLoop env target L c (loadCursors env (pruneProcessedMsgIds env w)) steps)
   \<or> (\<exists>L c l. pullAndDispatchMessages env target cbToken cbOpenKfId w steps
          = pullLoop env target L c
              (emit (Log INFO l) (loadCursors env (pruneProcessedMsgIds env w))) steps)"
  by (simp add: pullAndDispatchMessages_def Let_def split: option.splits) blast

lemma handed_simps [simp]:
  "handed mid (emit (Log l x) w) = handed mid w"
  "handed mid (emit (SyncMessagesCall p) w) = handed mid w"
  "handed mid (emit (StatusSinkOutbound t) w) = handed mid w"
  "handed mid (emit (HandleKfEventCall m) w) = handed mid w + (if msgid m = mid then 1 else 0)"
  "handed mid (emit (DispatchKfMessageCall m) w) = handed mid w + (if msgid m = mid then 1 else 0)"
  "handed mid (tick w) = handed mid w"
  "handed mid (handleKfEvent env msg acc w) = handed mid w"
  "handed mid (storeCursor L r w) = handed mid w"
  "handed mid (loadCursors env w) = handed mid w"
  "handed mid (pruneProcessedMsgIds env w) = handed mid w"
  by (simp_all add: handed_def)

lemma unseen_simps [simp]:
  "unseen mid (emit e w) = unseen mid w"
  "unseen mid (tick w) = unseen mid w"
  "unseen mid (handleKfEvent env msg acc w) = unseen mid w"
  "unseen mid (storeCursor L p w) = unseen mid w"
  "unseen mid (loadCursors env w) = unseen mid w"
  by (simp_all add: unseen_def)

lemma isDuplicate_cases:
  "(processedMsgIds w i \<noteq> None \<and> isDuplicate env i w = (True, w))
   \<or> (processedMsgIds w i = None \<and> fst (isDuplicate env i w) = False
       \<and> processedMsgIds (snd (isDuplicate env i w)) = (processedMsgIds w)(i \<mapsto> dateNow env w)
       \<and> trace (snd (isDuplicate env i w)) = trace w)"
  by (auto simp: isDuplicate_def split: option.splits)

lemma processMsg_potential:
  assumes "mid \<noteq> []"
  shows "handed mid (processMsg env target msg w) + unseen mid (processMsg env target msg w)
           \<le> handed mid w + unseen mid w"
proof (cases "msgid msg = []")
  case True
  with assms show ?thesis
    by (auto simp: processMsg_def Let_def split: option.splits)
next
  case False
  from isDuplicate_cases [of w "msgid msg" env]
  show ?thesis
  proof (elim disjE conjE)
    assume "processedMsgIds w (msgid msg) \<noteq> None" "isDuplicate env (msgid msg) w = (True, w)"
    with False show ?thesis by (simp add: processMsg_def)
  next
    let ?w1 = "snd (isDuplicate env (msgid msg) w)"
    assume n: "processedMsgIds w (msgid msg) = None" and f: "fst (isDuplicate env (msgid msg) w) = False"
      and p: "processedMsgIds ?w1 = (processedMsgIds w)(msgid msg \<mapsto> dateNow env w)"
      and t: "trace ?w1 = trace w"
    have h: "handed mid ?w1 = handed mid w" using t by (simp add: handed_def)
    have u: "unseen mid ?w1 = (if msgid msg = mid then 0 else unseen mid w)"
      using p by (simp add: unseen_def)
    have u0: "msgid msg = mid \<Longrightarrow> unseen mid w = 1" using n by (simp add: unseen_def)
    show ?thesis using False f h u u0
      by (auto simp: processMsg_def Let_def case_prod_beta split: option.splits)
  qed
qed

lemma fold_processMsg_potential:
  assumes "mid \<noteq> []"
  shows "handed mid (fold (processMsg env target) ms w) + unseen mid (fold (processMsg env target) ms w)
           \<le> handed mid w + unseen mid w"
proof (induction ms arbitrary: w)
  case Nil
  then show ?case by simp
next
  case (Cons m ms)
  from Cons.IH [of "processMsg env target m w"] processMsg_potential [OF assms, of env target m w]
  show ?case by simp
qed

lemma iteration_potential:
  assumes "mid \<noteq> []"
  shows "handed mid (snd (snd (iteration env target L c u w)))
           + unseen mid (snd (snd (iteration env target L c u w)))
           \<le> handed mid w + unseen mid w"
proof (cases "outcome u")
  case (Inl e)
  then show ?thesis by (simp add: iteration_fail)
next
  case (Inr p)
  from fold_processMsg_potential [OF assms, of env target "msg_list p"
      "storeCursor L p (emit (SyncMessagesCall (syncRequestBody (syncParams L c))) w)"]
  show ?thesis using Inr by (simp add: iteration_ok Let_def)
qed

lemma pullLoop_potential:
  assumes "mid \<noteq> []"
  shows "handed mid (final (pullLoop env target L c w steps))
           + unseen mid (final (pullLoop env target L c w steps))
           \<le> handed mid w + unseen mid w"
proof (induction steps arbitrary: c w)
  case Nil
  then show ?case by simp
next
  case (Cons u us)
  let ?it = "iteration env target L c u w"
  from Cons.IH [where c = "fst (snd ?it)" and w = "snd (snd ?it)"]
    iteration_potential [OF assms, of env target L c u w]
  show ?case by (auto simp: pullLoop_Cons simp del: pullLoop.simps)
qed

lemma processMsg_recorded:
  assumes "mid \<noteq> []" and "processedMsgIds w mid \<noteq> None"
  shows "handed mid (processMsg env target msg w) = handed mid w
       \<and> processedMsgIds (processMsg env target msg w) mid \<noteq> None"
proof (cases "msgid msg = []")
  case True
  with assms show ?thesis
    by (auto simp: processMsg_def Let_def split: option.splits)
next
  case False
  from isDuplicate_cases [of w "msgid msg" env]
  show ?thesis
  proof (elim disjE conjE)
    assume "processedMsgIds w (msgid msg) \<noteq> None" "isDuplicate env (msgid msg) w = (True, w)"
    with False assms(2) show ?thesis by (simp add: processMsg_def)
  next
    let ?w1 = "snd (isDuplicate env (msgid msg) w)"
    assume n: "processedMsgIds w (msgid msg) = None" and f: "fst (isDuplicate env (msgid msg) w) = False"
      and p: "processedMsgIds ?w1 = (processedMsgIds w)(msgid msg \<mapsto> dateNow env w)"
      and t: "trace ?w1 = trace w"
    from n assms(2) have ne: "msgid msg \<noteq> mid" by auto
    have h: "handed mid ?w1 = handed mid w" using t by (simp add: handed_def)
    have r: "processedMsgIds ?w1 mid \<noteq> None" using p assms(2) ne by simp
    show ?thesis using False f h r ne
      by (auto simp: processMsg_def Let_def case_prod_beta split: option.splits)
  qed
qed

lemma fold_processMsg_recorded:
  assumes "mid \<noteq> []"
  shows "processedMsgIds w mid \<noteq> None \<Longrightarrow>
         handed mid (fold (processMsg env target) ms w) = handed mid w
         \<and> processedMsgIds (fold (processMsg env target) ms w) mid \<noteq> None"
proof (induction ms arbitrary: w)
  case Nil
  then show ?case by simp
next
  case (Cons m ms)
  from processMsg_recorded [OF assms Cons.prems, of env target m]
  have a: "handed mid (processMsg env target m w) = handed mid w"
    and b: "processedMsgIds (processMsg env target m w) mid \<noteq> None" by simp_all
  from Cons.IH [OF b] a show ?case by simp
qed

lemma storeCursor_processed [simp]:
  "processedMsgIds (storeCursor L r w) = processedMsgIds w"
  by (simp add: storeCursor_def)

lemma iteration_recorded:
  assumes "mid \<noteq> []" and "processedMsgIds w mid \<noteq> None"
  shows "handed mid (snd (snd (iteration env target L c u w))) = handed mid w
       \<and> processedMsgIds (snd (snd (iteration env target L c u w))) mid \<noteq> None"
proof (cases "outcome u")
  case (Inl e)
  with assms(2) show ?thesis by (simp add: iteration_fail)
next
  case (Inr p)
  let ?w1 = "storeCursor L p (emit (SyncMessagesCall (syncRequestBody (syncParams L c))) w)"
  have "processedMsgIds ?w1 mid \<noteq> None" using assms(2) by simp
  from fold_processMsg_recorded [OF assms(1) this, of env target "msg_list p"]
  show ?thesis using Inr assms(2) by (simp add: iteration_ok Let_def)
qed

lemma pullLoop_recorded:
  assumes "mid \<noteq> []"
  shows "processedMsgIds w mid \<noteq> None \<Longrightarrow>
         handed mid (final (pullLoop env target L c w steps)) = handed mid w"
proof (induction steps arbitrary: c w)
  case Nil
  then show ?case by simp
next
  case (Cons u us)
  let ?it = "iteration env target L c u w"
  from iteration_recorded [OF assms Cons.prems, of env target L c u]
  have a: "handed mid (snd (snd ?it)) = handed mid w"
    and b: "processedMsgIds (snd (snd ?it)) mid \<noteq> None" by simp_all
  from Cons.IH [OF b, of "fst (snd ?it)"] a
  show ?case by (simp add: pullLoop_Cons del: pullLoop.simps)
qed

lemma prune_keeps:
  assumes "processedMsgIds w mid = Some ts" and "dateNow env w - ts \<le> DEDUP_TTL_MS"
  shows "processedMsgIds (pruneProcessedMsgIds env w) mid = Some ts"
  using assms by (simp add: pruneProcessedMsgIds_def Let_def)

lemma drain_recorded:
  assumes "mid \<noteq> []" and "processedMsgIds w mid = Some ts"
    and "dateNow env w - ts \<le> DEDUP_TTL_MS"
  shows "handed mid (final (pullAndDispatchMessages env target cbToken cbOpenKfId w steps))
           = handed mid w"
proof -
  have k: "processedMsgIds (loadCursors env (pruneProcessedMsgIds env w)) mid \<noteq> None"
    using prune_keeps [OF assms(2,3)] by simp
  from drain_cases [of env target cbToken cbOpenKfId w steps]
  show ?thesis
  proof (elim disjE exE)
    fix L c
    assume "pullAndDispatchMessages env target cbToken cbOpenKfId w steps
          = pullLoop env target L c (loadCursors env (pruneProcessedMsgIds env w)) steps"
    then show ?thesis
      using pullLoop_recorded [OF assms(1) k, of env target L c steps] by simp
  next
    fix L c l
    let ?w = "emit (Log INFO l) (loadCursors env (pruneProcessedMsgIds env w))"
    assume "pullAndDispatchMessages env target cbToken cbOpenKfId w steps
          = pullLoop env target L c ?w steps"
    moreover have "processedMsgIds ?w mid \<noteq> None" using k by simp
    ultimately show ?thesis
      using pullLoop_recorded [OF assms(1), of ?w env target L c steps] by simp
  qed auto
qed

lemma drain_potential:
  assumes "mid \<noteq> []"
  shows "handed mid (final (pullAndDispatchMessages env target cbToken cbOpenKfId w steps))
           + unseen mid (final (pullAndDispatchMessages env target cbToken cbOpenKfId w steps))
           \<le> Suc (handed mid w)"
proof -
  have u: "unseen mid v \<le> 1" for v by (simp add: unseen_def)
  from drain_cases [of env target cbToken cbOpenKfId w steps]
  show ?thesis
  proof (elim disjE exE)
    fix L c
    assume "pullAndDispatchMessages env target cbToken cbOpenKfId w steps
          = pullLoop env target L c (loadCursors env (pruneProcessedMsgIds env w)) steps"
    then show ?thesis
      using pullLoop_potential [OF assms, of env target L c
          "loadCursors env (pruneProcessedMsgIds env w)" steps]
        u [of "pruneProcessedMsgIds env w"] by simp
  next
    fix L c l
    assume "pullAndDispatchMessages env target cbToken cbOpenKfId w steps
          = pullLoop env target L c
              (emit (Log INFO l) (loadCursors env (pruneProcessedMsgIds env w))) steps"
    then show ?thesis
      using pullLoop_potential [OF assms, of env target L c
          "emit (Log INFO l) (loadCursors env (pruneProcessedMsgIds env w))" steps]
        u [of "pruneProcessedMsgIds env w"] by simp
  next
    fix l
    assume "pullAndDispatchMessages env target cbToken cbOpenKfId w steps
          = Returned (emit (Log WARN l) w)"
    then show ?thesis using u [of w] by simp
  next
    fix l
    assume "pullAndDispatchMessages env target cbToken cbOpenKfId w steps
          = Returned (emit (Log WARN l) (pruneProcessedMsgIds env w))"
    then show ?thesis using u [of "pruneProcessedMsgIds env w"] by simp
  qed
qed

subsection \<open>Lemmas on the handler\<close>

lemma respond_simps [simp]:
  "sent (respond code hs b w) = Some \<lparr>statusCode = code, headers = hs, res_body = b\<rparr>"
  "started (respond code hs b w) = None"
  "returned (respond code hs b w) = True"
  "after (respond code hs b w) = w"
  by (simp_all add: respond_def)

lemma handler_GET:
  assumes "req_method req = ''GET''" and "webhookTargets w (req_path req) = Some targets"
    and "targets \<noteq> []"
  shows "handleWecomKfWebhookRequest env req w =
           handleGet env targets (orEmpty (req_query req ''timestamp''))
             (orEmpty (req_query req ''nonce''))
             (case req_query req ''msg_signature'' of
                Some s \<Rightarrow> s
              | None \<Rightarrow> orEmpty (req_query req ''signature'')) req w"
  using assms by (simp add: handleWecomKfWebhookRequest_def Let_def)

lemma handler_POST:
  assumes "req_method req = ''POST''" and "webhookTargets w (req_path req) = Some targets"
    and "targets \<noteq> []"
  shows "handleWecomKfWebhookRequest env req w =
           handlePost env targets (orEmpty (req_query req ''timestamp''))
             (orEmpty (req_query req ''nonce''))
             (case req_query req ''msg_signature'' of
                Some s \<Rightarrow> s
              | None \<Rightarrow> orEmpty (req_query req ''signature'')) req w"
  using assms by (simp add: handleWecomKfWebhookRequest_def Let_def)

lemma registerWebhookTarget_accounts:
  assumes "\<And>key ts t. r key = Some ts \<Longrightarrow> t \<in> set ts \<Longrightarrow> configured (account t)"
    and "configured (account target)"
    and "registerWebhookTarget target r key = Some ts" and "t \<in> set ts"
  shows "configured (account t)"
  using assms
  by (auto simp: registerWebhookTarget_def Let_def split: if_splits option.splits)

lemma unregisterWebhookTarget_accounts:
  assumes "\<And>key ts t. r key = Some ts \<Longrightarrow> t \<in> set ts \<Longrightarrow> configured (account t)"
    and "unregisterWebhookTarget k i r key = Some ts" and "t \<in> set ts"
  shows "configured (account t)"
proof (cases "key = k")
  case False
  with assms show ?thesis
    by (auto simp: unregisterWebhookTarget_def Let_def split: if_splits)
next
  case True
  with assms(2) obtain ex where ex: "r k = Some ex" and ts: "ts = take i ex @ drop (Suc i) ex"
    by (auto simp: unregisterWebhookTarget_def Let_def split: if_splits option.splits)
  from assms(3) ts have "t \<in> set ex"
    by (auto dest: in_set_takeD in_set_dropD)
  with assms(1) ex show ?thesis by blast
qed

lemma registered_configured:
  "registered r \<Longrightarrow> r key = Some ts \<Longrightarrow> t \<in> set ts \<Longrightarrow> configured (account t)"
proof (induction arbitrary: key ts t rule: registered.induct)
  case atLoad
  then show ?case by simp
next
  case (started r acc webhookPath)
  show ?case
  proof (cases "configured acc")
    case False
    with started show ?thesis by (simp add: startAccount_def)
  next
    case True
    with started.prems have
      "registerWebhookTarget
         \<lparr>account = acc,
          path = trimPath (case webhookPath of None \<Rightarrow> ''/wecom-kf'' | Some p \<Rightarrow> p),
          hasStatusSink = True\<rparr> r key = Some ts"
      by (simp add: startAccount_def)
    from registerWebhookTarget_accounts [OF started.IH _ this started.prems(2)] True
    show ?thesis by simp
  qed
next
  case (unregistered r k i)
  from unregisterWebhookTarget_accounts [OF unregistered.IH unregistered.prems]
  show ?case .
qed

lemma sample_registered: "registered (webhookTargets (sampleWorld cursors))"
proof -
  have "startAccount sampleAccount None Map.empty = [''/wecom-kf'' \<mapsto> [sampleTarget]]"
    by (simp add: startAccount_def configured_def truthy_def registerWebhookTarget_def
        normalizeWebhookPath_def trimPath_def isWhiteSpace_def sampleAccount_def sampleTarget_def
        Let_def)
  with registered.started [OF registered.atLoad, of sampleAccount None]
  show ?thesis by (simp add: sampleWorld_def)
qed

subsection \<open>Cold start\<close>

text \<open>
  C2 (amended). A drain of an (account, channel-instance) pair with no stored cursor
  that fetches \<open>N \<ge> 1\<close> pages, each with at least one item, hands no item to the event
  router or to the dispatch collaborator, whatever the pages' next-cursors are, and
  makes \<open>N\<close> calls of \<open>syncMessages\<close>.  The cursor store ends holding the last
  next-cursor among the pages that is not empty: when the next-cursor of the last page
  is not empty, the store holds that one.  When the last page does not have
  \<open>has_more = 1\<close> the loop has ended.  The pages are the results of the first \<open>N\<close>
  calls; every page but the last has \<open>has_more = 1\<close>, so that the loop does fetch the
  next one.
\<close>

theorem cold_start_drain:
  assumes "truthy (corpId (account target))" and "truthy (corpSecret (account target))"
    and "resolveOpenKfId (account target) cbOpenKfId = Some kf" and "kf \<noteq> []"
    and "cursorStore (loadCursors env w) (getCursorKey (accountId (account target)) (Some kf)) = None"
    and "pages \<noteq> []" and "map outcome steps = map Inr pages"
    and "\<forall>p \<in> set pages. msg_list p \<noteq> []"
    and "\<forall>p \<in> set (butlast pages). has_more p = 1"
  shows "dispatched (trace (final (pullAndDispatchMessages env target cbToken cbOpenKfId w steps)))
           = dispatched (trace w)
       \<and> cursorStore (final (pullAndDispatchMessages env target cbToken cbOpenKfId w steps))
           (getCursorKey (accountId (account target)) (Some kf)) = lastStored None pages
       \<and> (next_cursor (last pages) \<noteq> [] \<longrightarrow>
            cursorStore (final (pullAndDispatchMessages env target cbToken cbOpenKfId w steps))
              (getCursorKey (accountId (account target)) (Some kf))
              = Some (next_cursor (last pages)))
       \<and> fetchCalls (trace (final (pullAndDispatchMessages env target cbToken cbOpenKfId w steps)))
           = fetchCalls (trace w) + length pages
       \<and> (has_more (last pages) \<noteq> 1 \<longrightarrow>
            hasReturned (pullAndDispatchMessages env target cbToken cbOpenKfId w steps))"
proof -
  let ?key = "getCursorKey (accountId (account target)) (Some kf)"
  let ?L = "\<lparr>callbackToken = cbToken, effectiveOpenKfId = kf, cursorKey = ?key, isColdStart = True\<rparr>"
  let ?w3 = "emit (Log INFO (ColdStartFor ?key)) (loadCursors env (pruneProcessedMsgIds env w))"
  have run: "pullAndDispatchMessages env target cbToken cbOpenKfId w steps
               = pullLoop env target ?L [] ?w3 steps"
    using assms(1-5) by (simp add: drain_unfold Let_def)
  have cold: "isColdStart ?L" by simp
  have ret: "has_more (last pages) \<noteq> 1 \<longrightarrow> hasReturned (pullLoop env target ?L [] ?w3 steps)"
  proof
    assume "has_more (last pages) \<noteq> 1"
    from pullLoop_returns [OF assms(7,6) this, of env target ?L "[]" ?w3]
    show "hasReturned (pullLoop env target ?L [] ?w3 steps)" by auto
  qed
  from pullLoop_cold [OF cold assms(7,8,9), of env target "[]" ?w3]
  show ?thesis
    using run assms(5) lastStored_last [OF assms(6), of None] ret by simp
qed

theorem cold_start_drain_witness:
  "cursorStore (loadCursors sampleEnv coldWorld) ''default:wk1'' = None
   \<and> map (\<lambda>p. msg_list p \<noteq> [])
        [samplePage ''c1'' 1 [sampleItem ''m1'' ''text'' 3],
         samplePage ''c2'' 0 [sampleItem ''m2'' ''text'' 3]] = [True, True]
   \<and> dispatched (trace (final (pullAndDispatchMessages sampleEnv sampleTarget None None coldWorld
        [sampleStep (samplePage ''c1'' 1 [sampleItem ''m1'' ''text'' 3]),
         sampleStep (samplePage ''c2'' 0 [sampleItem ''m2'' ''text'' 3])]))) = []
   \<and> cursorStore (final (pullAndDispatchMessages sampleEnv sampleTarget None None coldWorld
        [sampleStep (samplePage ''c1'' 1 [sampleItem ''m1'' ''text'' 3]),
         sampleStep (samplePage ''c2'' 0 [sampleItem ''m2'' ''text'' 3])])) ''default:wk1''
       = Some ''c2''
   \<and> hasReturned (pullAndDispatchMessages sampleEnv sampleTarget None None coldWorld
        [sampleStep (samplePage ''c1'' 1 [sampleItem ''m1'' ''text'' 3]),
         sampleStep (samplePage ''c2'' 0 [sampleItem ''m2'' ''text'' 3])])"
proof -
  let ?pages = "[samplePage ''c1'' 1 [sampleItem ''m1'' ''text'' 3],
                 samplePage ''c2'' 0 [sampleItem ''m2'' ''text'' 3]]"
  have h1: "truthy (corpId (account sampleTarget))"
    and h2: "truthy (corpSecret (account sampleTarget))"
    and h3: "resolveOpenKfId (account sampleTarget) None = Some ''wk1''"
    and h4: "''wk1'' \<noteq> []"
    by (simp_all add: sample_defs truthy_def resolveOpenKfId_def)
  have key: "getCursorKey (accountId (account sampleTarget)) (Some ''wk1'') = ''default:wk1''"
    by (simp add: sample_defs getCursorKey_def)
  have h5: "cursorStore (loadCursors sampleEnv coldWorld)
              (getCursorKey (accountId (account sampleTarget)) (Some ''wk1'')) = None"
    by (simp add: coldWorld_def sample_defs loadCursors_def)
  have h6: "?pages \<noteq> []" by simp
  have h7: "map outcome (map sampleStep ?pages) = map Inr ?pages"
    by (simp add: sample_defs outcome_def syncMessages_def)
  have h8: "\<forall>p \<in> set ?pages. msg_list p \<noteq> []" by (simp add: sample_defs)
  have h9: "\<forall>p \<in> set (butlast ?pages). has_more p = 1" by (simp add: sample_defs)
  have t0: "dispatched (trace coldWorld) = []" by (simp add: coldWorld_def sample_defs)
  have nc: "next_cursor (samplePage ''c2'' 0 [sampleItem ''m2'' ''text'' 3]) = ''c2''"
    "has_more (samplePage ''c2'' 0 [sampleItem ''m2'' ''text'' 3]) = 0"
    by (simp_all add: samplePage_def)
  from cold_start_drain [OF h1 h2 h3 h4 h5 h6 h7 h8 h9, of None]
  show ?thesis using h5 h8 by (simp add: key t0 nc)
qed

text \<open>
  As C2 is stated the store would end holding the next-cursor of the last page
  whatever it is.  An empty next-cursor is not stored (\<open>if (resp.next_cursor)\<close>): after a
  first page with next-cursor \<open>c1\<close> and a last page with an empty one, the store still
  holds \<open>c1\<close>.
\<close>

theorem cold_start_drain_counterexample:
  "cursorStore (loadCursors sampleEnv coldWorld) ''default:wk1'' = None
   \<and> cursorStore (final (pullAndDispatchMessages sampleEnv sampleTarget None None
        coldWorld
        [sampleStep (samplePage ''c1'' 1 [sampleItem ''m1'' ''text'' 3]),
         sampleStep (samplePage [] 0 [sampleItem ''m2'' ''text'' 3])])) ''default:wk1''
       = Some ''c1''
   \<and> Some ''c1'' \<noteq> Some (next_cursor (samplePage [] 0 [sampleItem ''m2'' ''text'' 3]))"
  by (simp add: coldWorld_def sample_defs drain_defs)

subsection \<open>A failed fetch\<close>

text \<open>
  C6. In every drain in which a call of \<open>syncMessages\<close> fails (\<open>getAccessToken\<close> or the
  request throws, or the reply carries a result code other than 0) after any number
  of pages that kept the loop going, the loop ends in that invocation, the entry of
  the cursor store for the key of (accountId, channel-instance) is the last
  next-cursor stored by the pages before (or the entry the drain started with), the
  failure is logged, and the failed call is the last call of \<open>syncMessages\<close>: the number
  of calls is the number of pages plus one, whatever the upstream would have answered
  afterwards.
\<close>

theorem failed_fetch_ends_drain:
  assumes "truthy (corpId (account target))" and "truthy (corpSecret (account target))"
    and "resolveOpenKfId (account target) cbOpenKfId = Some kf" and "kf \<noteq> []"
    and "map outcome pre = map Inr pages"
    and "\<forall>p \<in> set pages. has_more p = 1 \<and> msg_list p \<noteq> []"
    and "(\<exists>e. accessToken u = Inl e) \<or> (\<exists>e. reply u = Inl e)
         \<or> (\<exists>d c. reply u = Inr d \<and> errcode d = Some c \<and> c \<noteq> 0)"
  shows "\<exists>w' e. pullAndDispatchMessages env target cbToken cbOpenKfId w (pre @ u # us) = Returned w'
       \<and> cursorStore w' (getCursorKey (accountId (account target)) (Some kf))
           = lastStored (cursorStore (loadCursors env w)
                           (getCursorKey (accountId (account target)) (Some kf))) pages
       \<and> fetchCalls (trace w') = fetchCalls (trace w) + length pre + 1
       \<and> last (trace w') = Log ERROR (SyncMsgFailed e)"
proof -
  let ?key = "getCursorKey (accountId (account target)) (Some kf)"
  let ?w2 = "loadCursors env (pruneProcessedMsgIds env w)"
  let ?cursor = "case cursorStore ?w2 ?key of None \<Rightarrow> [] | Some c \<Rightarrow> c"
  let ?L = "\<lparr>callbackToken = cbToken, effectiveOpenKfId = kf, cursorKey = ?key,
             isColdStart = (?cursor = [])\<rparr>"
  let ?w3 = "if ?cursor = [] then emit (Log INFO (ColdStartFor ?key)) ?w2 else ?w2"
  from outcome_fails [OF assms(7)] obtain e where e: "outcome u = Inl e" ..
  have run: "pullAndDispatchMessages env target cbToken cbOpenKfId w (pre @ u # us)
               = pullLoop env target ?L ?cursor ?w3 (pre @ u # us)"
    using assms(1-4) by (simp add: drain_unfold Let_def)
  have st: "cursorStore ?w3 (cursorKey ?L) = cursorStore (loadCursors env w) ?key"
    and fc: "fetchCalls (trace ?w3) = fetchCalls (trace w)"
    by simp_all
  from pullLoop_fail [OF assms(5,6) e, of env target ?L ?cursor ?w3 us]
  obtain w' where "pullLoop env target ?L ?cursor ?w3 (pre @ u # us) = Returned w'"
    "cursorStore w' (cursorKey ?L) = lastStored (cursorStore ?w3 (cursorKey ?L)) pages"
    "fetchCalls (trace w') = fetchCalls (trace ?w3) + length pre + 1"
    "last (trace w') = Log ERROR (SyncMsgFailed e)"
    by blast
  with run st fc show ?thesis by (intro exI [of _ w'] exI [of _ e]) simp
qed

theorem failed_fetch_ends_drain_witness:
  "errcode (samplePage [] 0 []\<lparr>errcode := Some 40014\<rparr>) = Some 40014
   \<and> hasReturned (pullAndDispatchMessages sampleEnv sampleTarget None None
        (sampleWorld [''default:wk1'' \<mapsto> ''c1''])
        [sampleStep (samplePage ''c2'' 1 [sampleItem ''m1'' ''text'' 3]), failedStep,
         sampleStep (samplePage ''c3'' 0 [sampleItem ''m2'' ''text'' 3])])
   \<and> cursorStore (final (pullAndDispatchMessages sampleEnv sampleTarget None None
        (sampleWorld [''default:wk1'' \<mapsto> ''c1''])
        [sampleStep (samplePage ''c2'' 1 [sampleItem ''m1'' ''text'' 3]), failedStep,
         sampleStep (samplePage ''c3'' 0 [sampleItem ''m2'' ''text'' 3])])) ''default:wk1''
       = Some ''c2''
   \<and> fetchCalls (trace (final (pullAndDispatchMessages sampleEnv sampleTarget None None
        (sampleWorld [''default:wk1'' \<mapsto> ''c1''])
        [sampleStep (samplePage ''c2'' 1 [sampleItem ''m1'' ''text'' 3]), failedStep,
         sampleStep (samplePage ''c3'' 0 [sampleItem ''m2'' ''text'' 3])]))) = 2"
proof -
  let ?pages = "[samplePage ''c2'' 1 [sampleItem ''m1'' ''text'' 3]]"
  let ?us = "[sampleStep (samplePage ''c3'' 0 [sampleItem ''m2'' ''text'' 3])]"
  let ?w = "sampleWorld [''default:wk1'' \<mapsto> ''c1'']"
  have h1: "truthy (corpId (account sampleTarget))"
    and h2: "truthy (corpSecret (account sampleTarget))"
    and h3: "resolveOpenKfId (account sampleTarget) None = Some ''wk1''"
    and h4: "''wk1'' \<noteq> []"
    by (simp_all add: sample_defs truthy_def resolveOpenKfId_def)
  have key: "getCursorKey (accountId (account sampleTarget)) (Some ''wk1'') = ''default:wk1''"
    by (simp add: sample_defs getCursorKey_def)
  have h5: "map outcome (map sampleStep ?pages) = map Inr ?pages"
    by (simp add: sample_defs outcome_def syncMessages_def)
  have h6: "\<forall>p \<in> set ?pages. has_more p = 1 \<and> msg_list p \<noteq> []" by (simp add: sample_defs)
  have h7: "(\<exists>e. accessToken failedStep = Inl e) \<or> (\<exists>e. reply failedStep = Inl e)
         \<or> (\<exists>d c. reply failedStep = Inr d \<and> errcode d = Some c \<and> c \<noteq> 0)"
    by (simp add: failedStep_def)
  have st: "lastStored (cursorStore (loadCursors sampleEnv ?w) ''default:wk1'') ?pages = Some ''c2''"
    by (simp add: sample_defs loadCursors_def)
  have fc: "fetchCalls (trace ?w) = 0" by (simp add: sample_defs)
  have ec: "errcode (samplePage [] 0 []\<lparr>errcode := Some 40014\<rparr>) = Some 40014" by simp
  from failed_fetch_ends_drain [OF h1 h2 h3 h4 h5 h6 h7, of sampleEnv None ?w ?us]
  obtain w' where "pullAndDispatchMessages sampleEnv sampleTarget None None ?w
        (map sampleStep ?pages @ failedStep # ?us) = Returned w'"
    "cursorStore w' ''default:wk1'' = Some ''c2''" "fetchCalls (trace w') = 2"
    unfolding key st fc by auto
  then show ?thesis using ec by simp
qed

subsection \<open>Storing the next-cursor and continuing\<close>

text \<open>
  C5 (amended). After a successful reply of \<open>syncMessages\<close> whose next-cursor is not
  empty, the next-cursor is stored under the cursor key and the save timer is set.
  The loop goes on to another fetch if and only if the reply has \<open>has_more = 1\<close> and a
  message list that is not empty: this is the value of \<open>hasMore\<close> after the pass, it
  decides between the next pass and the return, and when the upstream has a further
  step at hand a second call of \<open>syncMessages\<close> is made exactly in that case.
\<close>

theorem page_stored_and_loop_continues:
  assumes "outcome u = Inr resp"
  shows "(next_cursor resp \<noteq> [] \<longrightarrow>
            cursorStore (snd (snd (iteration env target L c u w))) (cursorKey L)
              = Some (next_cursor resp)
          \<and> saveTimer (snd (snd (iteration env target L c u w))))
       \<and> fst (iteration env target L c u w) = (has_more resp = 1 \<and> msg_list resp \<noteq> [])
       \<and> pullLoop env target L c w (u # us)
           = (if has_more resp = 1 \<and> msg_list resp \<noteq> []
              then pullLoop env target L (fst (snd (iteration env target L c u w)))
                     (snd (snd (iteration env target L c u w))) us
              else Returned (snd (snd (iteration env target L c u w))))
       \<and> (Suc (fetchCalls (trace w))
            < fetchCalls (trace (final (pullLoop env target L c w (u # v # vs))))
          \<longleftrightarrow> has_more resp = 1 \<and> msg_list resp \<noteq> [])"
proof -
  let ?it = "iteration env target L c u w"
  have a: "next_cursor resp \<noteq> [] \<longrightarrow>
            cursorStore (snd (snd ?it)) (cursorKey L) = Some (next_cursor resp)
          \<and> saveTimer (snd (snd ?it))"
    using assms by (simp add: iteration_ok Let_def storeCursor_def)
  have b: "fst ?it = (has_more resp = 1 \<and> msg_list resp \<noteq> [])"
    using assms by (simp add: iteration_ok Let_def)
  have c: "pullLoop env target L c w (u # us)
           = (if has_more resp = 1 \<and> msg_list resp \<noteq> []
              then pullLoop env target L (fst (snd ?it)) (snd (snd ?it)) us
              else Returned (snd (snd ?it)))" for us
    using b by (simp add: pullLoop_Cons del: pullLoop.simps)
  have d: "Suc (fetchCalls (trace w))
            < fetchCalls (trace (final (pullLoop env target L c w (u # v # vs))))
          \<longleftrightarrow> has_more resp = 1 \<and> msg_list resp \<noteq> []"
  proof (cases "has_more resp = 1 \<and> msg_list resp \<noteq> []")
    case True
    from pullLoop_fetchCalls_ge [where w = "snd (snd ?it)" and steps = "v # vs" and env = env
        and target = target and L = L and c = "fst (snd ?it)"]
    show ?thesis using True c [of "v # vs"] by (simp add: iteration_fetchCalls del: pullLoop.simps)
  next
    case False
    then have "pullLoop env target L c w (u # v # vs) = Returned (snd (snd ?it))"
      by (subst c) (rule if_not_P)
    then show ?thesis using False by (simp add: iteration_fetchCalls del: pullLoop.simps)
  qed
  from a b c [of us] d show ?thesis by blast
qed

theorem page_stored_and_loop_continues_witness:
  "outcome (sampleStep (samplePage ''c2'' 1 [sampleItem ''m1'' ''text'' 3]))
     = Inr (samplePage ''c2'' 1 [sampleItem ''m1'' ''text'' 3])
   \<and> cursorStore (snd (snd (iteration sampleEnv sampleTarget
         \<lparr>callbackToken = None, effectiveOpenKfId = ''wk1'', cursorKey = ''default:wk1'',
          isColdStart = False\<rparr> ''c1''
         (sampleStep (samplePage ''c2'' 1 [sampleItem ''m1'' ''text'' 3]))
         (sampleWorld [''default:wk1'' \<mapsto> ''c1'']))))
       ''default:wk1'' = Some ''c2''
   \<and> saveTimer (snd (snd (iteration sampleEnv sampleTarget
         \<lparr>callbackToken = None, effectiveOpenKfId = ''wk1'', cursorKey = ''default:wk1'',
          isColdStart = False\<rparr> ''c1''
         (sampleStep (samplePage ''c2'' 1 [sampleItem ''m1'' ''text'' 3]))
         (sampleWorld [''default:wk1'' \<mapsto> ''c1'']))))
   \<and> fst (iteration sampleEnv sampleTarget
         \<lparr>callbackToken = None, effectiveOpenKfId = ''wk1'', cursorKey = ''default:wk1'',
          isColdStart = False\<rparr> ''c1''
         (sampleStep (samplePage ''c2'' 1 [sampleItem ''m1'' ''text'' 3]))
         (sampleWorld [''default:wk1'' \<mapsto> ''c1'']))
   \<and> fetchCalls (trace (final (pullLoop sampleEnv sampleTarget
         \<lparr>callbackToken = None, effectiveOpenKfId = ''wk1'', cursorKey = ''default:wk1'',
          isColdStart = False\<rparr> ''c1'' (sampleWorld [''default:wk1'' \<mapsto> ''c1''])
         [sampleStep (samplePage ''c2'' 1 [sampleItem ''m1'' ''text'' 3]),
          sampleStep (samplePage ''c3'' 0 [sampleItem ''m2'' ''text'' 3])]))) = 2"
proof -
  let ?p = "samplePage ''c2'' 1 [sampleItem ''m1'' ''text'' 3]"
  have h: "outcome (sampleStep ?p) = Inr ?p"
    by (simp add: sample_defs outcome_def syncMessages_def)
  have p: "next_cursor ?p = ''c2''" "has_more ?p = 1" "msg_list ?p \<noteq> []"
    by (simp_all add: samplePage_def)
  have n: "fetchCalls (trace (final (pullLoop sampleEnv sampleTarget
         \<lparr>callbackToken = None, effectiveOpenKfId = ''wk1'', cursorKey = ''default:wk1'',
          isColdStart = False\<rparr> ''c1'' (sampleWorld [''default:wk1'' \<mapsto> ''c1''])
         [sampleStep (samplePage ''c2'' 1 [sampleItem ''m1'' ''text'' 3]),
          sampleStep (samplePage ''c3'' 0 [sampleItem ''m2'' ''text'' 3])]))) = 2"
    by (simp add: sample_defs drain_defs)
  from page_stored_and_loop_continues [OF h, of sampleEnv sampleTarget
      "\<lparr>callbackToken = None, effectiveOpenKfId = ''wk1'', cursorKey = ''default:wk1'',
        isColdStart = False\<rparr>" "''c1''" "sampleWorld [''default:wk1'' \<mapsto> ''c1'']"]
  show ?thesis using h n by (simp add: p del: pullLoop.simps)
qed

text \<open>
  As C5 is stated the loop would fetch again whenever \<open>has_more\<close> is set.  A reply with
  \<open>has_more = 1\<close> and an empty message list ends the loop
  (\<open>hasMore = false; continue\<close>): one call is made and the drain returns.
\<close>

theorem page_stored_and_loop_continues_counterexample:
  "outcome (sampleStep (samplePage ''c2'' 1 [])) = Inr (samplePage ''c2'' 1 [])
   \<and> has_more (samplePage ''c2'' 1 []) = 1
   \<and> hasReturned (pullAndDispatchMessages sampleEnv sampleTarget None None
        warmWorld
        [sampleStep (samplePage ''c2'' 1 []),
         sampleStep (samplePage ''c3'' 0 [sampleItem ''m1'' ''text'' 3])])
   \<and> fetchCalls (trace (final (pullAndDispatchMessages sampleEnv sampleTarget None None
        warmWorld
        [sampleStep (samplePage ''c2'' 1 []),
         sampleStep (samplePage ''c3'' 0 [sampleItem ''m1'' ''text'' 3])]))) = 1"
  by (simp add: warmWorld_def sample_defs drain_defs)

subsection \<open>Origin filter\<close>

text \<open>
  C4. For an item processed in a page of a drain that is not a cold start
  (\<open>processMsg\<close>): an item whose origin is not 3 is never handed to the dispatch
  collaborator, whatever its message type; when its type is not the event kind either,
  it is dropped with no call and no log line; and an item that is not an event and is
  handed to the dispatch collaborator has origin 3.  Over a whole drain, every item
  newly handed to the dispatch collaborator has origin 3 and is not an event.
\<close>

theorem origin_filter:
  "(origin msg \<noteq> 3 \<longrightarrow>
      forwarded (trace (processMsg env target msg w)) = forwarded (trace w))
   \<and> (origin msg \<noteq> 3 \<and> msgtype msg \<noteq> ''event'' \<longrightarrow>
      trace (processMsg env target msg w) = trace w)
   \<and> (msgtype msg \<noteq> ''event''
        \<and> forwarded (trace (processMsg env target msg w)) \<noteq> forwarded (trace w) \<longrightarrow>
      origin msg = 3)
   \<and> set (forwarded (trace (final (pullAndDispatchMessages env target cbToken cbOpenKfId w steps))))
       \<subseteq> set (forwarded (trace w)) \<union> {m. origin m = 3 \<and> msgtype m \<noteq> ''event''}"
proof (intro conjI impI)
  assume "origin msg \<noteq> 3"
  then show "forwarded (trace (processMsg env target msg w)) = forwarded (trace w)"
    using processMsg_forwarded [of env target msg w] by auto
next
  assume "origin msg \<noteq> 3 \<and> msgtype msg \<noteq> ''event''"
  then show "trace (processMsg env target msg w) = trace w"
    by (simp add: processMsg_def Let_def case_prod_beta)
next
  assume "msgtype msg \<noteq> ''event''
    \<and> forwarded (trace (processMsg env target msg w)) \<noteq> forwarded (trace w)"
  then show "origin msg = 3"
    using processMsg_forwarded [of env target msg w] by auto
next
  let ?A = "{m. origin m = 3 \<and> msgtype m \<noteq> ''event''}"
  from drain_cases [of env target cbToken cbOpenKfId w steps]
  show "set (forwarded (trace (final (pullAndDispatchMessages env target cbToken cbOpenKfId w steps))))
          \<subseteq> set (forwarded (trace w)) \<union> ?A"
  proof (elim disjE exE)
    fix L c
    assume "pullAndDispatchMessages env target cbToken cbOpenKfId w steps
          = pullLoop env target L c (loadCursors env (pruneProcessedMsgIds env w)) steps"
    then show ?thesis
      using pullLoop_forwarded_set [of env target L c
          "loadCursors env (pruneProcessedMsgIds env w)" steps] by simp
  next
    fix L c l
    assume "pullAndDispatchMessages env target cbToken cbOpenKfId w steps
          = pullLoop env target L c
              (emit (Log INFO l) (loadCursors env (pruneProcessedMsgIds env w))) steps"
    then show ?thesis
      using pullLoop_forwarded_set [of env target L c
          "emit (Log INFO l) (loadCursors env (pruneProcessedMsgIds env w))" steps] by simp
  qed auto
qed

theorem origin_filter_witness:
  "origin (sampleItem ''m2'' ''text'' 4) \<noteq> 3
   \<and> msgtype (sampleItem ''m2'' ''text'' 4) \<noteq> ''event''
   \<and> trace (processMsg sampleEnv sampleTarget (sampleItem ''m2'' ''text'' 4)
        (sampleWorld Map.empty)) = []
   \<and> forwarded (trace (processMsg sampleEnv sampleTarget (sampleItem ''m2'' ''text'' 4)
        (sampleWorld Map.empty))) = []
   \<and> origin (sampleItem ''m1'' ''text'' 3) = 3
   \<and> forwarded (trace (processMsg sampleEnv sampleTarget (sampleItem ''m1'' ''text'' 3)
        (sampleWorld Map.empty))) = [sampleItem ''m1'' ''text'' 3]
   \<and> forwarded (trace (final (pullAndDispatchMessages sampleEnv sampleTarget None None
        (sampleWorld [''default:wk1'' \<mapsto> ''c1''])
        [sampleStep (samplePage ''c2'' 0 [sampleItem ''m1'' ''text'' 3, sampleItem ''m2'' ''text'' 4,
           sampleItem ''m3'' ''image'' 5])])))
       = [sampleItem ''m1'' ''text'' 3]"
proof -
  have o: "origin (sampleItem ''m2'' ''text'' 4) \<noteq> 3"
    and m: "msgtype (sampleItem ''m2'' ''text'' 4) \<noteq> ''event''"
    by (simp_all add: sampleItem_def)
  have t: "trace (sampleWorld Map.empty) = []" by (simp add: sampleWorld_def)
  have e: "origin (sampleItem ''m1'' ''text'' 3) = 3"
    "forwarded (trace (processMsg sampleEnv sampleTarget (sampleItem ''m1'' ''text'' 3)
        (sampleWorld Map.empty))) = [sampleItem ''m1'' ''text'' 3]"
    "forwarded (trace (final (pullAndDispatchMessages sampleEnv sampleTarget None None
        (sampleWorld [''default:wk1'' \<mapsto> ''c1''])
        [sampleStep (samplePage ''c2'' 0 [sampleItem ''m1'' ''text'' 3, sampleItem ''m2'' ''text'' 4,
           sampleItem ''m3'' ''image'' 5])])))
       = [sampleItem ''m1'' ''text'' 3]"
    by (simp_all add: sample_defs drain_defs)
  from origin_filter [of "sampleItem ''m2'' ''text'' 4" sampleEnv sampleTarget
      "sampleWorld Map.empty"] o m
  have "trace (processMsg sampleEnv sampleTarget (sampleItem ''m2'' ''text'' 4)
          (sampleWorld Map.empty)) = []"
    "forwarded (trace (processMsg sampleEnv sampleTarget (sampleItem ''m2'' ''text'' 4)
          (sampleWorld Map.empty))) = []"
    by (simp_all add: t)
  with o m e show ?thesis by simp
qed

subsection \<open>Deduplication\<close>

text \<open>
  C3 (amended). In every drain (warm start or not), for every message id that is not
  empty, at most one item with that id is handed to the event router or the dispatch
  collaborator, however often the id occurs on one page or across pages.  An id that
  the dedup map holds at the start of the drain with a time inside the TTL window is
  not dispatched by the drain at all, and an id dispatched by the drain is in the map
  when the drain ends.  The first call of \<open>isDuplicate\<close> for an id records it with the
  current time and returns false, and every later call within the TTL window returns
  true: at once, and after the pruning that a later drain starts with.
\<close>

theorem duplicate_ids_dispatched_once:
  assumes "mid \<noteq> []"
  shows "length (filter (\<lambda>m. msgid m = mid)
           (dispatched (trace (final (pullAndDispatchMessages env target cbToken cbOpenKfId w steps)))))
           \<le> Suc (length (filter (\<lambda>m. msgid m = mid) (dispatched (trace w))))
       \<and> (processedMsgIds w mid = Some ts \<and> dateNow env w - ts \<le> DEDUP_TTL_MS \<longrightarrow>
            length (filter (\<lambda>m. msgid m = mid)
              (dispatched (trace (final (pullAndDispatchMessages env target cbToken cbOpenKfId w steps)))))
            = length (filter (\<lambda>m. msgid m = mid) (dispatched (trace w))))
       \<and> (length (filter (\<lambda>m. msgid m = mid) (dispatched (trace w)))
            < length (filter (\<lambda>m. msgid m = mid)
                (dispatched (trace (final (pullAndDispatchMessages env target cbToken cbOpenKfId w steps)))))
            \<longrightarrow> processedMsgIds (final (pullAndDispatchMessages env target cbToken cbOpenKfId w steps)) mid
                  \<noteq> None)
       \<and> (processedMsgIds w mid = None \<longrightarrow>
            fst (isDuplicate env mid w) = False
            \<and> processedMsgIds (snd (isDuplicate env mid w)) mid = Some (dateNow env w)
            \<and> fst (isDuplicate env mid (snd (isDuplicate env mid w))) = True)
       \<and> (processedMsgIds w mid \<noteq> None \<longrightarrow> isDuplicate env mid w = (True, w))
       \<and> (processedMsgIds w mid = Some ts \<and> dateNow env w - ts \<le> DEDUP_TTL_MS \<longrightarrow>
            processedMsgIds (pruneProcessedMsgIds env w) mid = Some ts
            \<and> fst (isDuplicate env mid (pruneProcessedMsgIds env w)) = True)"
proof (intro conjI impI)
  show "length (filter (\<lambda>m. msgid m = mid)
           (dispatched (trace (final (pullAndDispatchMessages env target cbToken cbOpenKfId w steps)))))
           \<le> Suc (length (filter (\<lambda>m. msgid m = mid) (dispatched (trace w))))"
    using drain_potential [OF assms, of env target cbToken cbOpenKfId w steps]
    by (simp add: handed_def)
next
  assume "processedMsgIds w mid = Some ts \<and> dateNow env w - ts \<le> DEDUP_TTL_MS"
  then show "length (filter (\<lambda>m. msgid m = mid)
              (dispatched (trace (final (pullAndDispatchMessages env target cbToken cbOpenKfId w steps)))))
            = length (filter (\<lambda>m. msgid m = mid) (dispatched (trace w)))"
    using drain_recorded [OF assms, of w ts env target cbToken cbOpenKfId steps]
    by (simp add: handed_def)
next
  assume "length (filter (\<lambda>m. msgid m = mid) (dispatched (trace w)))
            < length (filter (\<lambda>m. msgid m = mid)
                (dispatched (trace (final (pullAndDispatchMessages env target cbToken cbOpenKfId w steps)))))"
  then have "unseen mid (final (pullAndDispatchMessages env target cbToken cbOpenKfId w steps)) = 0"
    using drain_potential [OF assms, of env target cbToken cbOpenKfId w steps]
    by (simp add: handed_def)
  then show "processedMsgIds (final (pullAndDispatchMessages env target cbToken cbOpenKfId w steps)) mid
                  \<noteq> None"
    by (simp add: unseen_def split: if_splits)
next
  assume "processedMsgIds w mid = None"
  then show "fst (isDuplicate env mid w) = False"
    and "processedMsgIds (snd (isDuplicate env mid w)) mid = Some (dateNow env w)"
    and "fst (isDuplicate env mid (snd (isDuplicate env mid w))) = True"
    by (simp_all add: isDuplicate_def)
next
  assume "processedMsgIds w mid \<noteq> None"
  then show "isDuplicate env mid w = (True, w)"
    by (auto simp: isDuplicate_def)
next
  assume a: "processedMsgIds w mid = Some ts \<and> dateNow env w - ts \<le> DEDUP_TTL_MS"
  then show "processedMsgIds (pruneProcessedMsgIds env w) mid = Some ts"
    by (simp add: prune_keeps)
  with a show "fst (isDuplicate env mid (pruneProcessedMsgIds env w)) = True"
    by (simp add: isDuplicate_def)
qed

theorem duplicate_ids_dispatched_once_witness:
  "''m1'' \<noteq> []
   \<and> map msgid (dispatched (trace (final (pullAndDispatchMessages sampleEnv sampleTarget None None
        warmWorld
        [sampleStep (samplePage ''c2'' 1 [sampleItem ''m1'' ''text'' 3, sampleItem ''m2'' ''text'' 4]),
         sampleStep (samplePage ''c3'' 0 [sampleItem ''m1'' ''text'' 3])])))) = [''m1'']
   \<and> cursorStore (final (pullAndDispatchMessages sampleEnv sampleTarget None None
        warmWorld
        [sampleStep (samplePage ''c2'' 1 [sampleItem ''m1'' ''text'' 3, sampleItem ''m2'' ''text'' 4]),
         sampleStep (samplePage ''c3'' 0 [sampleItem ''m1'' ''text'' 3])])) ''default:wk1'' = Some ''c3''
   \<and> processedMsgIds (final (pullAndDispatchMessages sampleEnv sampleTarget None None
        warmWorld
        [sampleStep (samplePage ''c2'' 1 [sampleItem ''m1'' ''text'' 3, sampleItem ''m2'' ''text'' 4]),
         sampleStep (samplePage ''c3'' 0 [sampleItem ''m1'' ''text'' 3])])) ''m1'' = Some 1001
   \<and> processedMsgIds seenWorld ''m1'' = Some 900
   \<and> dateNow sampleEnv seenWorld - 900 \<le> DEDUP_TTL_MS
   \<and> length (filter (\<lambda>m. msgid m = ''m1'')
        (dispatched (trace (final (pullAndDispatchMessages sampleEnv sampleTarget None None
        seenWorld
        [sampleStep (samplePage ''c2'' 0 [sampleItem ''m1'' ''text'' 3])]))))) = 0
   \<and> fst (isDuplicate sampleEnv ''m1'' warmWorld) = False
   \<and> fst (isDuplicate sampleEnv ''m1'' (snd (isDuplicate sampleEnv ''m1'' warmWorld))) = True
   \<and> fst (isDuplicate sampleEnv ''m1'' (pruneProcessedMsgIds sampleEnv seenWorld)) = True"
proof -
  have h: "''m1'' \<noteq> []" by simp
  have n: "processedMsgIds warmWorld ''m1'' = None"
    by (simp add: warmWorld_def sampleWorld_def)
  have s: "processedMsgIds seenWorld ''m1'' = Some 900"
    "dateNow sampleEnv seenWorld - 900 \<le> DEDUP_TTL_MS"
    "dispatched (trace seenWorld) = []"
    by (simp_all add: seenWorld_def warmWorld_def sample_defs dateNow_def DEDUP_TTL_MS_def)
  have e: "map msgid (dispatched (trace (final (pullAndDispatchMessages sampleEnv sampleTarget None None
        warmWorld
        [sampleStep (samplePage ''c2'' 1 [sampleItem ''m1'' ''text'' 3, sampleItem ''m2'' ''text'' 4]),
         sampleStep (samplePage ''c3'' 0 [sampleItem ''m1'' ''text'' 3])])))) = [''m1'']"
    "cursorStore (final (pullAndDispatchMessages sampleEnv sampleTarget None None
        warmWorld
        [sampleStep (samplePage ''c2'' 1 [sampleItem ''m1'' ''text'' 3, sampleItem ''m2'' ''text'' 4]),
         sampleStep (samplePage ''c3'' 0 [sampleItem ''m1'' ''text'' 3])])) ''default:wk1'' = Some ''c3''"
    "processedMsgIds (final (pullAndDispatchMessages sampleEnv sampleTarget None None
        warmWorld
        [sampleStep (samplePage ''c2'' 1 [sampleItem ''m1'' ''text'' 3, sampleItem ''m2'' ''text'' 4]),
         sampleStep (samplePage ''c3'' 0 [sampleItem ''m1'' ''text'' 3])])) ''m1'' = Some 1001"
    by (simp_all add: warmWorld_def sample_defs drain_defs)
  from duplicate_ids_dispatched_once [OF h, where w = seenWorld and ts = 900 and env = sampleEnv
      and target = sampleTarget and cbToken = None and cbOpenKfId = None
      and steps = "[sampleStep (samplePage ''c2'' 0 [sampleItem ''m1'' ''text'' 3])]"] s
  have 1: "length (filter (\<lambda>m. msgid m = ''m1'')
        (dispatched (trace (final (pullAndDispatchMessages sampleEnv sampleTarget None None
        seenWorld
        [sampleStep (samplePage ''c2'' 0 [sampleItem ''m1'' ''text'' 3])]))))) = 0"
    "fst (isDuplicate sampleEnv ''m1'' (pruneProcessedMsgIds sampleEnv seenWorld)) = True"
    by simp_all
  from duplicate_ids_dispatched_once [OF h, where w = warmWorld and env = sampleEnv] n
  have 2: "fst (isDuplicate sampleEnv ''m1'' warmWorld) = False"
    "fst (isDuplicate sampleEnv ''m1'' (snd (isDuplicate sampleEnv ''m1'' warmWorld))) = True"
    by simp_all
  from h e s 1 2 show ?thesis by simp
qed

text \<open>
  As C3 is stated it covers every message id.  An item whose \<open>msgid\<close> is empty is not
  passed to \<open>isDuplicate\<close> (\<open>msg.msgid && isDuplicate(msg.msgid)\<close>): two such items on
  one page of a warm-start drain are both dispatched.
\<close>

theorem duplicate_ids_dispatched_once_counterexample:
  "cursorStore warmWorld ''default:wk1'' = Some ''c1''
   \<and> map msgid [sampleItem [] ''text'' 3, sampleItem [] ''text'' 3] = [[], []]
   \<and> map msgid (dispatched (trace (final (pullAndDispatchMessages sampleEnv sampleTarget None None
        warmWorld
        [sampleStep (samplePage ''c2'' 0 [sampleItem [] ''text'' 3, sampleItem [] ''text'' 3])]))))
       = [[], []]"
  by (simp add: warmWorld_def sample_defs drain_defs)

subsection \<open>Welcome message on session entry\<close>

text \<open>
  C7 (amended). For every \<open>enter_session\<close> event handled by \<open>handleKfEvent\<close>: if the event
  carries a welcome code that is not empty and the welcome text of the account is not
  empty after trimming white space, exactly one call of \<open>sendKfWelcomeMessage\<close> is made,
  with that code, message type \<open>text\<close> and the trimmed text; if the code, or the trimmed
  text, is absent or empty, no call is made.
\<close>

theorem enter_session_welcome:
  assumes "event msg = Some e" and "event_type e = ''enter_session''"
  shows "(welcome_code e = Some code \<and> code \<noteq> [] \<and> welcomeText acc = Some txt \<and> trim txt \<noteq> []
            \<longrightarrow> welcomeSends (trace (handleKfEvent env msg acc w))
                  = welcomeSends (trace w) @ [(code, ''text'', trim txt)])
       \<and> (\<not> truthy (welcome_code e) \<or> \<not> truthy (map_option trim (welcomeText acc))
            \<longrightarrow> welcomeSends (trace (handleKfEvent env msg acc w)) = welcomeSends (trace w))"
  using assms
  by (auto simp: handleKfEvent_def Let_def truthy_def split: option.splits)

theorem enter_session_welcome_witness:
  "event (sampleEnterSession (Some ''WC'')) = Some \<lparr>event_type = ''enter_session'',
       welcome_code = Some ''WC'', fail_msgid = None, fail_type = None\<rparr>
   \<and> trim (js '' hello '') = js ''hello''
   \<and> welcomeSends (trace (handleKfEvent sampleEnv (sampleEnterSession (Some ''WC''))
        (sampleAccount\<lparr>welcomeText := Some (js '' hello '')\<rparr>) (sampleWorld Map.empty)))
       = [(''WC'', ''text'', js ''hello'')]
   \<and> welcomeSends (trace (handleKfEvent sampleEnv (sampleEnterSession None)
        (sampleAccount\<lparr>welcomeText := Some (js '' hello '')\<rparr>) (sampleWorld Map.empty))) = []"
proof -
  let ?e = "\<lparr>event_type = ''enter_session'', welcome_code = Some ''WC'', fail_msgid = None,
             fail_type = None\<rparr>"
  let ?n = "\<lparr>event_type = ''enter_session'', welcome_code = None, fail_msgid = None,
             fail_type = None\<rparr>"
  let ?acc = "sampleAccount\<lparr>welcomeText := Some (js '' hello '')\<rparr>"
  have e: "event (sampleEnterSession (Some ''WC'')) = Some ?e"
    and n: "event (sampleEnterSession None) = Some ?n"
    by (simp_all add: sampleEnterSession_def)
  have t: "trim (js '' hello '') = js ''hello''"
    by (simp add: trim_def js_def isWhiteSpace_def)
  have a: "welcomeText ?acc = Some (js '' hello '')" by simp
  have w: "welcomeSends (trace (sampleWorld Map.empty)) = []" by (simp add: sampleWorld_def)
  have j: "js ''hello'' \<noteq> []" by (simp add: js_def)
  from enter_session_welcome [OF e, of "''WC''" ?acc "js '' hello ''" sampleEnv "sampleWorld Map.empty"]
  have 1: "welcomeSends (trace (handleKfEvent sampleEnv (sampleEnterSession (Some ''WC'')) ?acc
             (sampleWorld Map.empty))) = [(''WC'', ''text'', js ''hello'')]"
    using a t w j by simp
  from enter_session_welcome [OF n, of "''WC''" ?acc "js '' hello ''" sampleEnv "sampleWorld Map.empty"]
  have 2: "welcomeSends (trace (handleKfEvent sampleEnv (sampleEnterSession None) ?acc
             (sampleWorld Map.empty))) = []"
    using w by (simp add: truthy_def)
  from e t 1 2 show ?thesis by simp
qed

text \<open>
  As C7 is stated a configured welcome text that is not empty is enough.  The code
  trims it first (\<open>account.config.welcomeText?.trim()\<close>): with a welcome code and a
  welcome text of two spaces no call is made.
\<close>

theorem enter_session_welcome_counterexample:
  "event (sampleEnterSession (Some ''WC'')) = Some \<lparr>event_type = ''enter_session'',
       welcome_code = Some ''WC'', fail_msgid = None, fail_type = None\<rparr>
   \<and> welcomeText (sampleAccount\<lparr>welcomeText := Some (js ''  '')\<rparr>) = Some [32, 32]
   \<and> welcomeSends (trace (handleKfEvent sampleEnv (sampleEnterSession (Some ''WC''))
        (sampleAccount\<lparr>welcomeText := Some (js ''  '')\<rparr>) coldWorld)) = []"
  by (simp add: coldWorld_def sample_defs sampleEnterSession_def handleKfEvent_def trim_def js_def isWhiteSpace_def emit_def Let_def)

subsection \<open>Lemmas on the access token\<close>

lemma requestToken_trace:
  "trace (snd (requestToken env cid secret http w)) = trace w @ [GetTokenRequest cid secret]"
  by (simp add: requestToken_def Let_def split: sum.splits option.splits)

lemma requestToken_stores:
  assumes "requestToken env cid secret http w = (Inr tok, w1)"
  shows "accessTokenCache w1 (cid @ '':kf'')
           = Some \<lparr>entry_token = tok, expiresAt = dateNow env w + ACCESS_TOKEN_TTL_MS\<rparr>"
  using assms
  by (auto simp: requestToken_def Let_def dateNow_def split: sum.splits option.splits if_splits)

lemma getAccessToken_cached:
  assumes "getAccessToken env acc http w = (Inr tok, w1)"
  shows "\<exists>cid secret entry. corpId acc = Some cid \<and> cid \<noteq> [] \<and> corpSecret acc = Some secret
           \<and> secret \<noteq> [] \<and> accessTokenCache w1 (cid @ '':kf'') = Some entry
           \<and> entry_token entry = tok"
proof -
  from assms obtain cid secret where c: "corpId acc = Some cid" "cid \<noteq> []"
    "corpSecret acc = Some secret" "secret \<noteq> []"
    by (auto simp: getAccessToken_def split: option.splits if_splits)
  show ?thesis
  proof (cases "accessTokenCache w (cid @ '':kf'')")
    case None
    with assms c have "requestToken env cid secret http w = (Inr tok, w1)"
      by (simp add: getAccessToken_def)
    from requestToken_stores [OF this] c show ?thesis by simp
  next
    case (Some cached)
    show ?thesis
    proof (cases "dateNow env w < expiresAt cached")
      case True
      with assms c Some have "tok = entry_token cached" "w1 = tick w"
        by (simp_all add: getAccessToken_def)
      with c Some show ?thesis by simp
    next
      case False
      with assms c Some have "requestToken env cid secret http (tick w) = (Inr tok, w1)"
        by (simp add: getAccessToken_def)
      from requestToken_stores [OF this] c show ?thesis by simp
    qed
  qed
qed

lemma getAccessToken_hit:
  assumes "corpId acc = Some cid" and "cid \<noteq> []" and "corpSecret acc = Some secret"
    and "secret \<noteq> []" and "accessTokenCache w (cid @ '':kf'') = Some entry"
  shows "(getAccessToken env acc http w = (Inr (entry_token entry), tick w))
           = (dateNow env w < expiresAt entry)"
proof (cases "dateNow env w < expiresAt entry")
  case True
  with assms show ?thesis by (simp add: getAccessToken_def)
next
  case False
  with assms have "getAccessToken env acc http w = requestToken env cid secret http (tick w)"
    by (simp add: getAccessToken_def)
  then have "trace (snd (getAccessToken env acc http w)) = trace w @ [GetTokenRequest cid secret]"
    by (simp add: requestToken_trace)
  then have "getAccessToken env acc http w \<noteq> (Inr (entry_token entry), tick w)"
    by auto
  with False show ?thesis by simp
qed

lemmas token_defs =
  getAccessToken_def requestToken_def truthy_def emit_def tick_def dateNow_def
  ACCESS_TOKEN_TTL_MS_def Let_def

subsection \<open>Access token cache\<close>

text \<open>
  C8. When a call of \<open>getAccessToken\<close> for an account returns a token, the cache holds
  an entry with that token under the key of the account, and a second call made while
  \<open>Date.now()\<close> is below the expiry of the entry returns the identical token and sends
  no request to the credential endpoint (the trace is unchanged).  A cached entry is
  served from the cache exactly when \<open>now < expiresAt\<close>.  An entry stored after a request
  has as expiry the time of storing plus 115 minutes.
\<close>

theorem access_token_reuse:
  "(getAccessToken env acc http1 w = (Inr tok, w1) \<longrightarrow>
      (\<exists>cid entry. corpId acc = Some cid \<and> accessTokenCache w1 (cid @ '':kf'') = Some entry
         \<and> entry_token entry = tok
         \<and> (dateNow env w1 < expiresAt entry \<longrightarrow>
              getAccessToken env acc http2 w1 = (Inr tok, tick w1)
              \<and> trace (snd (getAccessToken env acc http2 w1)) = trace w1)))
   \<and> (corpId acc = Some c \<and> c \<noteq> [] \<and> corpSecret acc = Some s \<and> s \<noteq> []
        \<and> accessTokenCache w (c @ '':kf'') = Some cached \<longrightarrow>
       (getAccessToken env acc http1 w = (Inr (entry_token cached), tick w))
         = (dateNow env w < expiresAt cached))
   \<and> (requestToken env c s http1 w = (Inr tok, w1) \<longrightarrow>
       accessTokenCache w1 (c @ '':kf'')
         = Some \<lparr>entry_token = tok, expiresAt = dateNow env w + 115 * 60 * 1000\<rparr>)"
proof (intro conjI impI)
  assume a: "getAccessToken env acc http1 w = (Inr tok, w1)"
  from getAccessToken_cached [OF a] obtain cid secret entry where
    c: "corpId acc = Some cid" "cid \<noteq> []" "corpSecret acc = Some secret" "secret \<noteq> []"
      "accessTokenCache w1 (cid @ '':kf'') = Some entry" "entry_token entry = tok"
    by blast
  have "dateNow env w1 < expiresAt entry \<longrightarrow>
          getAccessToken env acc http2 w1 = (Inr tok, tick w1)
          \<and> trace (snd (getAccessToken env acc http2 w1)) = trace w1"
    using getAccessToken_hit [OF c(1-5), of env http2] c(6) by auto
  with c show "\<exists>cid entry. corpId acc = Some cid \<and> accessTokenCache w1 (cid @ '':kf'') = Some entry
         \<and> entry_token entry = tok
         \<and> (dateNow env w1 < expiresAt entry \<longrightarrow>
              getAccessToken env acc http2 w1 = (Inr tok, tick w1)
              \<and> trace (snd (getAccessToken env acc http2 w1)) = trace w1)"
    by blast
next
  assume "corpId acc = Some c \<and> c \<noteq> [] \<and> corpSecret acc = Some s \<and> s \<noteq> []
        \<and> accessTokenCache w (c @ '':kf'') = Some cached"
  then show "(getAccessToken env acc http1 w = (Inr (entry_token cached), tick w))
         = (dateNow env w < expiresAt cached)"
    using getAccessToken_hit [of acc c s w cached env http1] by simp
next
  assume "requestToken env c s http1 w = (Inr tok, w1)"
  from requestToken_stores [OF this]
  show "accessTokenCache w1 (c @ '':kf'')
         = Some \<lparr>entry_token = tok, expiresAt = dateNow env w + 115 * 60 * 1000\<rparr>"
    by (simp add: ACCESS_TOKEN_TTL_MS_def)
qed

theorem access_token_reuse_witness:
  "fst (getAccessToken sampleEnv sampleAccount (sampleTokenReply ''AT1'') (sampleWorld Map.empty))
     = Inr ''AT1''
   \<and> accessTokenCache
        (snd (getAccessToken sampleEnv sampleAccount (sampleTokenReply ''AT1'') (sampleWorld Map.empty)))
        ''corp:kf'' = Some \<lparr>entry_token = ''AT1'', expiresAt = 1000 + 115 * 60 * 1000\<rparr>
   \<and> dateNow sampleEnv
        (snd (getAccessToken sampleEnv sampleAccount (sampleTokenReply ''AT1'') (sampleWorld Map.empty)))
       = 1001
   \<and> fst (getAccessToken sampleEnv sampleAccount (sampleTokenReply ''AT2'')
        (snd (getAccessToken sampleEnv sampleAccount (sampleTokenReply ''AT1'') (sampleWorld Map.empty))))
     = Inr ''AT1''
   \<and> trace (snd (getAccessToken sampleEnv sampleAccount (sampleTokenReply ''AT2'')
        (snd (getAccessToken sampleEnv sampleAccount (sampleTokenReply ''AT1'') (sampleWorld Map.empty)))))
     = [GetTokenRequest ''corp'' ''secret'']"
proof -
  let ?first = "getAccessToken sampleEnv sampleAccount (sampleTokenReply ''AT1'') (sampleWorld Map.empty)"
  have f: "fst ?first = Inr ''AT1''"
    and c: "accessTokenCache (snd ?first) ''corp:kf''
              = Some \<lparr>entry_token = ''AT1'', expiresAt = 1000 + 115 * 60 * 1000\<rparr>"
    and d: "dateNow sampleEnv (snd ?first) = 1001"
    and t: "trace (snd ?first) = [GetTokenRequest ''corp'' ''secret'']"
    by (simp_all add: sample_defs sampleTokenReply_def token_defs)
  have p: "?first = (Inr ''AT1'', snd ?first)" using f by (simp add: prod_eq_iff)
  have k: "corpId sampleAccount = Some ''corp''" by (simp add: sampleAccount_def)
  from access_token_reuse [of sampleEnv sampleAccount "sampleTokenReply ''AT1''"
      "sampleWorld Map.empty" "''AT1''" "snd ?first" "sampleTokenReply ''AT2''"] p
  obtain cid entry where "corpId sampleAccount = Some cid"
    "accessTokenCache (snd ?first) (cid @ '':kf'') = Some entry"
    "dateNow sampleEnv (snd ?first) < expiresAt entry \<longrightarrow>
       getAccessToken sampleEnv sampleAccount (sampleTokenReply ''AT2'') (snd ?first)
         = (Inr ''AT1'', tick (snd ?first))
       \<and> trace (snd (getAccessToken sampleEnv sampleAccount (sampleTokenReply ''AT2'') (snd ?first)))
           = trace (snd ?first)"
    by blast
  with k c d have "getAccessToken sampleEnv sampleAccount (sampleTokenReply ''AT2'') (snd ?first)
         = (Inr ''AT1'', tick (snd ?first))"
    "trace (snd (getAccessToken sampleEnv sampleAccount (sampleTokenReply ''AT2'') (snd ?first)))
           = trace (snd ?first)"
    by auto
  with f c d t show ?thesis by simp
qed

subsection \<open>GET: URL verification\<close>

text \<open>
  C9. For every GET request on a path with registered targets, the registry being one
  that \<open>startAccount\<close> and the unregister functions produce (so that every registered
  tenant is configured), and \<open>signature\<close> being the query parameter \<open>msg_signature\<close> or,
  when that is missing, the parameter \<open>signature\<close>: if timestamp, nonce, signature or
  echostr is missing or empty the status is 400; otherwise, if no registered target's
  token verifies the signature the status is 401; otherwise the first target that
  verifies has an \<open>encodingAESKey\<close>, and if decrypting the challenge with it fails the
  status is 400, else the status is 200 and the body is the decrypted plaintext.  The
  handler returns true and starts no drain.
\<close>

theorem get_verification_status:
  assumes "req_method req = ''GET''" and "registered (webhookTargets w)"
    and "webhookTargets w (req_path req) = Some targets" and "targets \<noteq> []"
    and "timestamp = orEmpty (req_query req ''timestamp'')"
    and "nonce = orEmpty (req_query req ''nonce'')"
    and "signature = (case req_query req ''msg_signature'' of
                        Some s \<Rightarrow> s
                      | None \<Rightarrow> orEmpty (req_query req ''signature''))"
    and "echostr = orEmpty (req_query req ''echostr'')"
    and "matched = filter (signatureMatches env timestamp nonce echostr signature) targets"
    and "r = handleWecomKfWebhookRequest env req w"
  shows "(timestamp = [] \<or> nonce = [] \<or> signature = [] \<or> echostr = []
            \<longrightarrow> map_option statusCode (sent r) = Some 400)
       \<and> (timestamp \<noteq> [] \<and> nonce \<noteq> [] \<and> signature \<noteq> [] \<and> echostr \<noteq> [] \<and> matched = []
            \<longrightarrow> map_option statusCode (sent r) = Some 401)
       \<and> (matched = t # ts \<longrightarrow> (\<exists>key. encodingAESKey (account t) = Some key \<and> key \<noteq> []))
       \<and> (timestamp \<noteq> [] \<and> nonce \<noteq> [] \<and> signature \<noteq> [] \<and> echostr \<noteq> [] \<and> matched = t # ts
            \<and> encodingAESKey (account t) = Some key
            \<and> decryptWecomEncrypted env key (corpId (account t)) echostr = Inl e
            \<longrightarrow> map_option statusCode (sent r) = Some 400)
       \<and> (timestamp \<noteq> [] \<and> nonce \<noteq> [] \<and> signature \<noteq> [] \<and> echostr \<noteq> [] \<and> matched = t # ts
            \<and> encodingAESKey (account t) = Some key
            \<and> decryptWecomEncrypted env key (corpId (account t)) echostr = Inr plaintext
            \<longrightarrow> map_option statusCode (sent r) = Some 200
                \<and> map_option res_body (sent r) = Some plaintext)
       \<and> returned r \<and> started r = None"
proof -
  have r: "r = handleGet env targets timestamp nonce signature req w"
    using assms(1,3-7,10) by (simp add: handler_GET)
  have k: "\<exists>key. encodingAESKey (account t) = Some key \<and> key \<noteq> []" if "matched = t # ts"
  proof -
    from that assms(9) have "t \<in> set targets"
      by (metis filter_is_subset list.set_intros(1) subsetD)
    from registered_configured [OF assms(2,3) this]
    show ?thesis by (auto simp: configured_def truthy_def split: option.splits)
  qed
  show ?thesis
    unfolding r using assms(8,9) k
    by (auto simp: handleGet_def Let_def truthy_def split: list.splits option.splits sum.splits)
qed

theorem get_verification_status_witness:
  "map_option statusCode (sent (handleWecomKfWebhookRequest sampleEnv
      (sampleGet ''hello'' ''tok1nhello'') coldWorld)) = Some 200
   \<and> map_option res_body (sent (handleWecomKfWebhookRequest sampleEnv
      (sampleGet ''hello'' ''tok1nhello'') coldWorld)) = Some (js ''hello'')
   \<and> map_option statusCode (sent (handleWecomKfWebhookRequest sampleEnv
      (sampleGet ''bad'' ''tok1nbad'') coldWorld)) = Some 400
   \<and> map_option statusCode (sent (handleWecomKfWebhookRequest sampleEnv
      (sampleGet ''hello'' ''wrong'') coldWorld)) = Some 401
   \<and> map_option statusCode (sent (handleWecomKfWebhookRequest sampleEnv
      (sampleGet [] ''tok1n'') coldWorld)) = Some 400"
proof -
  let ?w = "coldWorld"
  have m: "req_method (sampleGet x y) = ''GET''" for x y by (simp add: sampleGet_def)
  have reg: "registered (webhookTargets ?w)"
    unfolding coldWorld_def by (rule sample_registered)
  have g: "webhookTargets ?w (req_path (sampleGet x y)) = Some [sampleTarget]" for x y
    by (simp add: sampleGet_def coldWorld_def sampleWorld_def)
  have n: "[sampleTarget] \<noteq> []" by simp
  have q: "orEmpty (req_query (sampleGet x y) ''timestamp'') = ''1''"
    "orEmpty (req_query (sampleGet x y) ''nonce'') = ''n''"
    "(case req_query (sampleGet x y) ''msg_signature'' of Some s \<Rightarrow> s
      | None \<Rightarrow> orEmpty (req_query (sampleGet x y) ''signature'')) = y"
    "orEmpty (req_query (sampleGet x y) ''echostr'') = x" for x y
    by (simp_all add: sampleGet_def orEmpty_def)
  have f1: "filter (signatureMatches sampleEnv ''1'' ''n'' ''hello'' ''tok1nhello'') [sampleTarget]
              = sampleTarget # []"
    and f2: "filter (signatureMatches sampleEnv ''1'' ''n'' ''bad'' ''tok1nbad'') [sampleTarget]
              = sampleTarget # []"
    and f3: "filter (signatureMatches sampleEnv ''1'' ''n'' ''hello'' ''wrong'') [sampleTarget] = []"
    by (simp_all add: signatureMatches_def sample_defs)
  have k: "encodingAESKey (account sampleTarget) = Some ''aeskey''"
    by (simp add: sample_defs)
  have d1: "decryptWecomEncrypted sampleEnv ''aeskey'' (corpId (account sampleTarget)) ''hello''
              = Inr (js ''hello'')"
    and d2: "decryptWecomEncrypted sampleEnv ''aeskey'' (corpId (account sampleTarget)) ''bad''
              = Inl (Thrown ''decrypt failed'')"
    by (simp_all add: sample_defs)
  from get_verification_status [where req = "sampleGet ''hello'' ''tok1nhello''" and w = ?w
      and env = sampleEnv and targets = "[sampleTarget]" and t = sampleTarget and ts = "[]"
      and key = "''aeskey''" and plaintext = "js ''hello''",
      OF m reg g n refl refl refl refl refl refl]
  have 1: "map_option statusCode (sent (handleWecomKfWebhookRequest sampleEnv
      (sampleGet ''hello'' ''tok1nhello'') ?w)) = Some 200
    \<and> map_option res_body (sent (handleWecomKfWebhookRequest sampleEnv
      (sampleGet ''hello'' ''tok1nhello'') ?w)) = Some (js ''hello'')"
    using f1 k d1 by (simp add: q)
  from get_verification_status [where req = "sampleGet ''bad'' ''tok1nbad''" and w = ?w
      and env = sampleEnv and targets = "[sampleTarget]" and t = sampleTarget and ts = "[]"
      and key = "''aeskey''" and e = "Thrown ''decrypt failed''",
      OF m reg g n refl refl refl refl refl refl]
  have 2: "map_option statusCode (sent (handleWecomKfWebhookRequest sampleEnv
      (sampleGet ''bad'' ''tok1nbad'') ?w)) = Some 400"
    using f2 k d2 by (simp add: q)
  from get_verification_status [where req = "sampleGet ''hello'' ''wrong''" and w = ?w
      and env = sampleEnv and targets = "[sampleTarget]",
      OF m reg g n refl refl refl refl refl refl]
  have 3: "map_option statusCode (sent (handleWecomKfWebhookRequest sampleEnv
      (sampleGet ''hello'' ''wrong'') ?w)) = Some 401"
    using f3 by (simp add: q)
  from get_verification_status [where req = "sampleGet [] ''tok1n''" and w = ?w
      and env = sampleEnv and targets = "[sampleTarget]",
      OF m reg g n refl refl refl refl refl refl]
  have 4: "map_option statusCode (sent (handleWecomKfWebhookRequest sampleEnv
      (sampleGet [] ''tok1n'') ?w)) = Some 400"
    by (simp add: q)
  from 1 2 3 4 show ?thesis by simp
qed

subsection \<open>POST: a callback that cannot be decrypted\<close>

text \<open>
  C1 (amended). For every POST callback whose signature matches a registered tenant
  with an \<open>encodingAESKey\<close> but whose envelope decryption fails, the handler answers 200
  \<open>success\<close>, logs the failure as an error and still starts the drain:
  \<open>pullAndDispatchMessages\<close> is called once for the first tenant that matched, with
  neither a callback token nor a callback open_kfid.
\<close>

theorem post_decrypt_failure:
  assumes "req_method req = ''POST''" and "webhookTargets w (req_path req) = Some targets"
    and "timestamp = orEmpty (req_query req ''timestamp'')" and "timestamp \<noteq> []"
    and "nonce = orEmpty (req_query req ''nonce'')" and "nonce \<noteq> []"
    and "signature = (case req_query req ''msg_signature'' of
                        Some s \<Rightarrow> s
                      | None \<Rightarrow> orEmpty (req_query req ''signature''))" and "signature \<noteq> []"
    and "rb_ok (req_body req)" and "rb_raw (req_body req) = Some raw" and "raw \<noteq> []"
    and "readEnvelope env signature timestamp nonce raw
           = Some (encrypt, msgSignature, msgTimestamp, msgNonce)" and "encrypt \<noteq> []"
    and "filter (signatureMatches env msgTimestamp msgNonce encrypt msgSignature) targets
           = target # others"
    and "encodingAESKey (account target) = Some key" and "key \<noteq> []"
    and "decryptWecomEncrypted env key (corpId (account target)) encrypt = Inl e"
    and "r = handleWecomKfWebhookRequest env req w"
  shows "returned r
       \<and> sent r = Some \<lparr>statusCode = 200,
                         headers = [(''Content-Type'', ''text/plain; charset=utf-8'')],
                         res_body = js ''success''\<rparr>
       \<and> trace (after r)
           = trace w @ Log ERROR (CallbackDecryptFailed e)
               # (if hasStatusSink target then [StatusSinkInbound (dateNow env w)] else [])
       \<and> started r
           = Some \<lparr>dc_target = target, dc_callbackToken = None, dc_callbackOpenKfId = None\<rparr>"
proof -
  from assms(14) have ne: "targets \<noteq> []" by auto
  have d: "decryptCallback env target encrypt w
             = ((None, None), emit (Log ERROR (CallbackDecryptFailed e)) w)"
    using assms(15-17) by (simp add: decryptCallback_def)
  have p: "handlePost env targets timestamp nonce signature req w = afterAck env target encrypt w"
    using assms(4,6,8-14) by (simp add: handlePost_def Let_def truthy_def)
  have "r = afterAck env target encrypt w"
    using assms(1-3,5,7,18) ne p by (simp add: handler_POST)
  then show ?thesis
    by (simp add: afterAck_def d dateNow_def)
qed

theorem post_decrypt_failure_witness:
  "decryptWecomEncrypted sampleEnv ''aeskey'' (corpId (account sampleTarget)) ''bad''
     = Inl (Thrown ''decrypt failed'')
   \<and> sent (handleWecomKfWebhookRequest sampleEnv (samplePost ''tok1nbad'') (sampleWorld Map.empty))
       = Some \<lparr>statusCode = 200, headers = [(''Content-Type'', ''text/plain; charset=utf-8'')],
               res_body = js ''success''\<rparr>
   \<and> trace (after (handleWecomKfWebhookRequest sampleEnv (samplePost ''tok1nbad'')
        (sampleWorld Map.empty)))
       = [Log ERROR (CallbackDecryptFailed (Thrown ''decrypt failed'')), StatusSinkInbound 1000]
   \<and> started (handleWecomKfWebhookRequest sampleEnv (samplePost ''tok1nbad'')
        (sampleWorld Map.empty))
       = Some \<lparr>dc_target = sampleTarget, dc_callbackToken = None, dc_callbackOpenKfId = None\<rparr>"
proof -
  let ?w = "sampleWorld Map.empty"
  let ?req = "samplePost ''tok1nbad''"
  have m: "req_method ?req = ''POST''" by (simp add: samplePost_def)
  have g: "webhookTargets ?w (req_path ?req) = Some [sampleTarget]"
    by (simp add: samplePost_def sampleWorld_def)
  have q: "orEmpty (req_query ?req ''timestamp'') = ''1''"
    "orEmpty (req_query ?req ''nonce'') = ''n''"
    "(case req_query ?req ''msg_signature'' of Some s \<Rightarrow> s
      | None \<Rightarrow> orEmpty (req_query ?req ''signature'')) = ''tok1nbad''"
    by (simp_all add: samplePost_def orEmpty_def)
  have b: "rb_ok (req_body ?req)" "rb_raw (req_body ?req) = Some sampleBody"
    "sampleBody \<noteq> []"
    by (simp_all add: samplePost_def sampleBody_def)
  have x: "\<not> isXmlFormat sampleBody"
    by (simp add: isXmlFormat_def trimStart_def sampleBody_def isWhiteSpace_def)
  have v: "readEnvelope sampleEnv ''tok1nbad'' ''1'' ''n'' sampleBody
             = Some (''bad'', ''tok1nbad'', ''1'', ''n'')"
    using x by (simp add: readEnvelope_def sample_defs)
  have f: "filter (signatureMatches sampleEnv ''1'' ''n'' ''bad'' ''tok1nbad'') [sampleTarget]
             = sampleTarget # []"
    by (simp add: signatureMatches_def sample_defs)
  have k: "encodingAESKey (account sampleTarget) = Some ''aeskey''" "''aeskey'' \<noteq> []"
    by (simp_all add: sample_defs)
  have d: "decryptWecomEncrypted sampleEnv ''aeskey'' (corpId (account sampleTarget)) ''bad''
             = Inl (Thrown ''decrypt failed'')"
    by (simp add: sample_defs)
  have s: "hasStatusSink sampleTarget" "trace ?w = []" "dateNow sampleEnv ?w = 1000"
    by (simp_all add: sample_defs dateNow_def)
  from post_decrypt_failure [OF m g q(1) [symmetric] _ q(2) [symmetric] _ q(3) [symmetric] _
      b v _ f k d refl]
  show ?thesis using d s by simp
qed

text \<open>
  As C1 is stated no drain would be started.  The \<open>catch\<close> block only logs and the call
  of \<open>pullAndDispatchMessages\<close> follows it: the drain is started.
\<close>

theorem post_decrypt_failure_counterexample:
  "filter (signatureMatches sampleEnv ''1'' ''n'' ''bad'' ''tok1nbad'') [sampleTarget] = [sampleTarget]
   \<and> decryptWecomEncrypted sampleEnv ''aeskey'' (corpId (account sampleTarget)) ''bad''
       = Inl (Thrown ''decrypt failed'')
   \<and> started (handleWecomKfWebhookRequest sampleEnv (samplePost ''tok1nbad'') coldWorld)
       = Some \<lparr>dc_target = sampleTarget, dc_callbackToken = None, dc_callbackOpenKfId = None\<rparr>"
  by (simp add: coldWorld_def sample_defs samplePost_def sampleBody_def
      handleWecomKfWebhookRequest_def handlePost_def readEnvelope_def afterAck_def
      decryptCallback_def signatureMatches_def isXmlFormat_def trimStart_def js_def
      isWhiteSpace_def orEmpty_def truthy_def respond_def emit_def Let_def)

subsection \<open>splitMessageByBytes\<close>

lemma byteLength_snoc: "byteLength (s @ [c]) = byteLength s + utf8_len c"
  by (simp add: byteLength_def)

lemma byteLength_single: "byteLength [c] = utf8_len c"
  by (simp add: byteLength_def)

lemma splitLoop_concat:
  "concat (splitLoop m xs chunks cur) = concat chunks @ cur @ xs"
  by (induction xs arbitrary: chunks cur) (simp_all add: Let_def)

lemma splitLoop_nonempty:
  "[] \<notin> set chunks \<Longrightarrow> [] \<notin> set (splitLoop m xs chunks cur)"
  by (induction xs arbitrary: chunks cur) (simp_all add: Let_def)

lemma splitLoop_bounded:
  assumes "\<forall>ch \<in> set chunks. int (byteLength ch) \<le> m"
    and "cur = [] \<or> int (byteLength cur) \<le> m"
    and "\<forall>c \<in> set xs. int (utf8_len c) \<le> m"
  shows "\<forall>ch \<in> set (splitLoop m xs chunks cur). int (byteLength ch) \<le> m"
  using assms
proof (induction xs arbitrary: chunks cur)
  case Nil
  then show ?case by auto
next
  case (Cons c xs)
  show ?case
  proof (cases "int (byteLength (cur @ [c])) > m")
    case True
    have "\<forall>ch \<in> set (splitLoop m xs (if cur \<noteq> [] then chunks @ [cur] else chunks) [c]).
            int (byteLength ch) \<le> m"
      using Cons.prems by (intro Cons.IH) (auto simp: byteLength_single)
    with True show ?thesis by (simp add: Let_def)
  next
    case False
    have "\<forall>ch \<in> set (splitLoop m xs chunks (cur @ [c])). int (byteLength ch) \<le> m"
      using Cons.prems False by (intro Cons.IH) auto
    with False show ?thesis by (simp add: Let_def)
  qed
qed

text \<open>
  C10. For every text and every \<open>maxBytes > 0\<close>, the chunks of \<open>splitMessageByBytes\<close>
  concatenate in order to the text, none of them is the empty string, and when every
  single character of the text has a UTF-8 length of at most \<open>maxBytes\<close>, every chunk
  has a UTF-8 length of at most \<open>maxBytes\<close>.
\<close>

theorem splitMessageByBytes_chunks:
  assumes "0 < maxBytes"
  shows "concat (splitMessageByBytes text maxBytes) = text
       \<and> [] \<notin> set (splitMessageByBytes text maxBytes)
       \<and> ((\<forall>c \<in> set text. int (utf8_len c) \<le> maxBytes)
            \<longrightarrow> (\<forall>ch \<in> set (splitMessageByBytes text maxBytes). int (byteLength ch) \<le> maxBytes))"
proof (intro conjI impI)
  show "concat (splitMessageByBytes text maxBytes) = text"
    by (simp add: splitMessageByBytes_def splitLoop_concat)
  show "[] \<notin> set (splitMessageByBytes text maxBytes)"
    by (simp add: splitMessageByBytes_def splitLoop_nonempty)
  assume "\<forall>c \<in> set text. int (utf8_len c) \<le> maxBytes"
  then show "\<forall>ch \<in> set (splitMessageByBytes text maxBytes). int (byteLength ch) \<le> maxBytes"
    unfolding splitMessageByBytes_def by (intro splitLoop_bounded) simp_all
qed

theorem splitMessageByBytes_chunks_witness:
  "(0::int) < 4
   \<and> map utf8_len [0x61, 0x4E2D, 0x62, 0x1F600] = [1, 3, 1, 4]
   \<and> splitMessageByBytes [0x61, 0x4E2D, 0x62, 0x1F600] 4 = [[0x61, 0x4E2D], [0x62], [0x1F600]]
   \<and> concat (splitMessageByBytes [0x61, 0x4E2D, 0x62, 0x1F600] 4) = [0x61, 0x4E2D, 0x62, 0x1F600]
   \<and> [] \<notin> set (splitMessageByBytes [0x61, 0x4E2D, 0x62, 0x1F600] 4)
   \<and> list_all (\<lambda>ch. int (byteLength ch) \<le> 4) (splitMessageByBytes [0x61, 0x4E2D, 0x62, 0x1F600] 4)"
proof -
  have h: "(0::int) < 4" by simp
  have e: "splitMessageByBytes [0x61, 0x4E2D, 0x62, 0x1F600] 4 = [[0x61, 0x4E2D], [0x62], [0x1F600]]"
    by (simp add: splitMessageByBytes_def byteLength_def utf8_len_def)
  have l: "map utf8_len [0x61, 0x4E2D, 0x62, 0x1F600] = [1, 3, 1, 4]"
    by (simp add: utf8_len_def)
  have b: "\<forall>c \<in> set [0x61, 0x4E2D, 0x62, 0x1F600::nat]. int (utf8_len c) \<le> 4"
    by (simp add: utf8_len_def)
  from splitMessageByBytes_chunks [OF h, of "[0x61, 0x4E2D, 0x62, 0x1F600]"] b
  have "concat (splitMessageByBytes [0x61, 0x4E2D, 0x62, 0x1F600] 4) = [0x61, 0x4E2D, 0x62, 0x1F600]
      \<and> [] \<notin> set (splitMessageByBytes [0x61, 0x4E2D, 0x62, 0x1F600] 4)
      \<and> list_all (\<lambda>ch. int (byteLength ch) \<le> 4) (splitMessageByBytes [0x61, 0x4E2D, 0x62, 0x1F600] 4)"
    by (simp add: list_all_iff)
  with h e l show ?thesis by simp
qed

end
